theory Spec2Isabelle
  imports
    Main
    "HOL-Library.Char_ord"
    "HOL-Library.List_Lexorder"
    "HOL-Library.Product_Lexorder"
    "HOL-Library.Option_ord"
begin

section \<open>The GraphQL mirror of \<open>src/graphql/mirror.js\<close>\<close>

text \<open>
  The mirror keeps a local SQLite copy of a part of a remote GraphQL object graph.
  This theory embeds the class \<open>Mirror\<close> and its helper functions: the tables are
  lists of rows, every method that touches the database is a function from the
  database to a result and the new database, and every \<open>throw\<close> is a value of the
  type \<open>error\<close>.
\<close>

subsection \<open>Strings\<close>

type_synonym Typename = string
type_synonym Fieldname = string
type_synonym ObjectId = string
type_synonym UpdateId = int

text \<open>\<open>Array.prototype.join\<close> on an array of strings.\<close>

fun join :: "string \<Rightarrow> string list \<Rightarrow> string" where
  "join sep [] = []"
| "join sep [x] = x"
| "join sep (x # y # ys) = x @ sep @ join sep (y # ys)"

text \<open>
  \<open>String(n)\<close> for a length \<open>n\<close>: the decimal digits of a natural number, most
  significant first, no leading zero.
\<close>

definition digit_char :: "nat \<Rightarrow> char" where
  "digit_char d = char_of (48 + d)"

fun String_nat :: "nat \<Rightarrow> string" where
  "String_nat n =
     (if n < 10 then [digit_char n] else String_nat (n div 10) @ [digit_char (n mod 10)])"

declare String_nat.simps [simp del]

text \<open>
  \<open>isSqlSafe\<close>: the token has no character outside \<open>[A-Za-z0-9_]\<close>
  (\<open>!token.match(/[^A-Za-z0-9_]/)\<close>; the empty string is safe).
\<close>

definition sql_safe_char :: "char \<Rightarrow> bool" where
  "sql_safe_char c =
     (let k = (of_char c :: nat)
      in (65 \<le> k \<and> k \<le> 90) \<or> (97 \<le> k \<and> k \<le> 122) \<or> (48 \<le> k \<and> k \<le> 57) \<or> k = 95)"

definition isSqlSafe :: "string \<Rightarrow> bool" where
  "isSqlSafe token = list_all sql_safe_char token"

subsection \<open>Parameter names of the own-data update statement\<close>

text \<open>
  \<open>parameterNameFor.topLevelField\<close> is \<open>["t", fieldname].join("_")\<close> and
  \<open>parameterNameFor.nestedField\<close> is
  \<open>["n", String(nestFieldname.length), nestFieldname, eggFieldname].join("_")\<close>.
\<close>

definition topLevelField :: "Fieldname \<Rightarrow> string" where
  "topLevelField fieldname = join ''_'' [''t'', fieldname]"

definition nestedField :: "Fieldname \<Rightarrow> Fieldname \<Rightarrow> string" where
  "nestedField nestFieldname eggFieldname =
     join ''_'' [''n'', String_nat (length nestFieldname), nestFieldname, eggFieldname]"

subsection \<open>The schema\<close>

text \<open>
  Modelled from the spec: the schema types of \<open>src/graphql/schema.js\<close>, which is
  not among the source files. A schema maps typenames to types; a type is \<open>SCALAR\<close>,
  \<open>ENUM\<close>, \<open>OBJECT\<close> with its fields, or \<open>UNION\<close> with its clauses; a field is
  \<open>ID\<close>, \<open>PRIMITIVE\<close>, \<open>NODE\<close> (element type and fidelity), \<open>CONNECTION\<close>
  (element type) or \<open>NESTED\<close> with its eggs, each \<open>PRIMITIVE\<close> or \<open>NODE\<close>.
  A JavaScript object used as a dictionary is an association list in the order of
  \<open>Object.keys\<close>; \<open>dict[key]\<close> is \<open>map_of dict key\<close>, \<open>None\<close> standing for
  \<open>undefined\<close>.
\<close>

datatype Fidelity = FAITHFUL | UNFAITHFUL

datatype EggFieldType = EGG_PRIMITIVE | EGG_NODE Typename Fidelity

datatype FieldType =
    ID
  | PRIMITIVE
  | NODE Typename Fidelity
  | CONNECTION Typename
  | NESTED "(Fieldname \<times> EggFieldType) list"

datatype Type =
    SCALAR
  | ENUM
  | OBJECT "(Fieldname \<times> FieldType) list"
  | UNION "Typename list"

type_synonym Schema = "(Typename \<times> Type) list"

subsection \<open>Errors\<close>

text \<open>One constructor for each \<open>throw\<close> of the source, and one for an error of SQLite.\<close>

datatype error =
    AlreadyInTransaction
  | IncompatibleConfig
  | InvalidObjectTypeName Typename
  | InvalidFieldName Fieldname
  | InvalidNestedFieldName Fieldname Fieldname
  | InvalidPrimitivesTableName Typename
  | InconsistentType ObjectId Typename Typename
  | UnknownType Typename
  | NonObjectType Typename
  | CannotUpdateNonObjectType Typename
  | UnfaithfulNotImplemented
  | NoSuchType Typename
  | CannotSelectScalar Typename
  | CannotSelectEnum Typename
  | ConnectionOnNonObject Typename
  | NoSuchField Typename Fieldname
  | NotAConnection Typename Fieldname
  | NoSuchConnection ObjectId Fieldname
  | NonexistentNode ObjectId
  | InconsistentTypenames Typename Typename
  | MissingPrimitive Fieldname ObjectId Typename
  | MissingNestedField Fieldname ObjectId Typename
  | MissingNestedEgg Fieldname Fieldname ObjectId Typename
  | MissingNodeReference Fieldname ObjectId Typename
  | BadChangeCount nat
  | BadKey string
  | NeverFetchedOwnData ObjectId ObjectId
  | NeverFetchedConnection ObjectId ObjectId Fieldname
  | CorruptionUnknownObjectType Typename
  | CorruptionNestedField Fieldname ObjectId
  | CorruptionBadFieldName string
  | CorruptionBadLinkName string
  | NullUtilGet
  | NoSuchObject ObjectId
  | IllTypedResult
  | TypeError
  | SqlError string

subsection \<open>SchemaInfo\<close>

record NestedFieldData =
  primitives :: "(Fieldname \<times> EggFieldType) list"
  nodes :: "(Fieldname \<times> EggFieldType) list"

record ObjectTypeInfo =
  type_fields :: "(Fieldname \<times> FieldType) list"
  nestedFields :: "(Fieldname \<times> NestedFieldData) list"
  primitiveFieldNames :: "Fieldname list"
  linkFieldNames :: "Fieldname list"
  connectionFieldNames :: "Fieldname list"
  nestedFieldNames :: "Fieldname list"

record SchemaInfo =
  objectTypes :: "(Typename \<times> ObjectTypeInfo) list"
  unionTypes :: "(Typename \<times> Typename list) list"

text \<open>A loop with a body that may throw: the first error ends it.\<close>

fun fold_err :: "('s \<Rightarrow> 'a \<Rightarrow> error + 's) \<Rightarrow> 'a list \<Rightarrow> 's \<Rightarrow> error + 's" where
  "fold_err f [] s = Inr s"
| "fold_err f (x # xs) s = (case f s x of Inl e \<Rightarrow> Inl e | Inr s' \<Rightarrow> fold_err f xs s')"

text \<open>The inner loop of \<open>_buildSchemaInfo\<close> over the eggs of a nested field.\<close>

fun add_egg :: "NestedFieldData \<Rightarrow> Fieldname \<times> EggFieldType \<Rightarrow> error + NestedFieldData" where
  "add_egg d (eggFieldname, EGG_PRIMITIVE) =
     Inr (d\<lparr>primitives := primitives d @ [(eggFieldname, EGG_PRIMITIVE)]\<rparr>)"
| "add_egg d (eggFieldname, EGG_NODE t UNFAITHFUL) = Inl UnfaithfulNotImplemented"
| "add_egg d (eggFieldname, EGG_NODE t FAITHFUL) =
     Inr (d\<lparr>nodes := nodes d @ [(eggFieldname, EGG_NODE t FAITHFUL)]\<rparr>)"

text \<open>The loop of \<open>_buildSchemaInfo\<close> over the fields of an object type.\<close>

fun add_field :: "ObjectTypeInfo \<Rightarrow> Fieldname \<times> FieldType \<Rightarrow> error + ObjectTypeInfo" where
  "add_field entry (fieldname, ID) = Inr entry"
| "add_field entry (fieldname, PRIMITIVE) =
     Inr (entry\<lparr>primitiveFieldNames := primitiveFieldNames entry @ [fieldname]\<rparr>)"
| "add_field entry (fieldname, NODE t UNFAITHFUL) = Inl UnfaithfulNotImplemented"
| "add_field entry (fieldname, NODE t FAITHFUL) =
     Inr (entry\<lparr>linkFieldNames := linkFieldNames entry @ [fieldname]\<rparr>)"
| "add_field entry (fieldname, CONNECTION t) =
     Inr (entry\<lparr>connectionFieldNames := connectionFieldNames entry @ [fieldname]\<rparr>)"
| "add_field entry (fieldname, NESTED eggs) =
     (case fold_err add_egg eggs \<lparr>primitives = [], nodes = []\<rparr> of
        Inl e \<Rightarrow> Inl e
      | Inr nestedFieldData \<Rightarrow>
          Inr (entry\<lparr>nestedFieldNames := nestedFieldNames entry @ [fieldname],
                     nestedFields := nestedFields entry @ [(fieldname, nestedFieldData)]\<rparr>))"

fun add_type :: "SchemaInfo \<Rightarrow> Typename \<times> Type \<Rightarrow> error + SchemaInfo" where
  "add_type result (typename, SCALAR) = Inr result"
| "add_type result (typename, ENUM) = Inr result"
| "add_type result (typename, OBJECT fs) =
     (case fold_err add_field fs
             \<lparr>type_fields = fs, nestedFields = [], primitiveFieldNames = [],
              linkFieldNames = [], connectionFieldNames = [], nestedFieldNames = []\<rparr> of
        Inl e \<Rightarrow> Inl e
      | Inr entry \<Rightarrow> Inr (result\<lparr>objectTypes := objectTypes result @ [(typename, entry)]\<rparr>))"
| "add_type result (typename, UNION clauses) =
     Inr (result\<lparr>unionTypes := unionTypes result @ [(typename, clauses)]\<rparr>)"

definition buildSchemaInfo :: "Schema \<Rightarrow> error + SchemaInfo" where
  "buildSchemaInfo schema = fold_err add_type schema \<lparr>objectTypes = [], unionTypes = []\<rparr>"

subsection \<open>The database\<close>

text \<open>
  Values of a GraphQL response, and of a column of a primitives table. Numbers are
  integers here; no function of the mirror computes with them. A primitive is stored
  as the text \<open>JSON.stringify(value)\<close> and read back with \<open>JSON.parse\<close>; the cell
  \<open>SqlJson v\<close> stands for that text.
\<close>

datatype jsvalue =
    JNull
  | JBool bool
  | JNumber int
  | JString string
  | JObject "(string \<times> jsvalue) list"

datatype cell = SqlNull | SqlInteger int | SqlJson jsvalue

record updates_row =
  updates_rowid :: int
  time_epoch_millis :: int

record objects_row =
  objects_id :: ObjectId
  objects_typename :: Typename
  objects_last_update :: "UpdateId option"

record links_row =
  links_rowid :: int
  parent_id :: ObjectId
  links_fieldname :: Fieldname
  links_child_id :: "ObjectId option"

record connections_row =
  connections_rowid :: int
  object_id :: ObjectId
  connections_fieldname :: Fieldname
  connections_last_update :: "UpdateId option"
  total_count :: "int option"
  has_next_page :: "int option"
  end_cursor :: "string option"

record connection_entries_row =
  entries_rowid :: int
  connection_id :: int
  idx :: int
  entries_child_id :: "ObjectId option"

record primitives_row =
  primitives_id :: ObjectId
  cells :: "(string \<times> cell) list"

record primitives_table =
  table_columns :: "string list"
  table_rows :: "primitives_row list"

text \<open>
  The database: the flag \<open>db.inTransaction\<close>, the names in \<open>sqlite_master\<close>, and
  the rows of each table in insertion order. \<open>meta\<close> holds the \<open>config\<close> column of
  its rows; \<open>primitives_tables\<close> maps a typename \<open>T\<close> to the table \<open>primitives_T\<close>.
  A table that was never created has no rows.
\<close>

record Database =
  db_inTransaction :: bool
  sqlite_master :: "string list"
  meta :: "string list"
  updates :: "updates_row list"
  objects :: "objects_row list"
  links :: "links_row list"
  connections :: "connections_row list"
  connection_entries :: "connection_entries_row list"
  primitives_tables :: "(Typename \<times> primitives_table) list"

subsection \<open>Statements: a result or an error, and the database after\<close>

type_synonym 'a sql = "Database \<Rightarrow> (error + 'a) \<times> Database"

definition ok :: "'a \<Rightarrow> 'a sql" where
  "ok x = (\<lambda>db. (Inr x, db))"

definition throw :: "error \<Rightarrow> 'a sql" where
  "throw e = (\<lambda>db. (Inl e, db))"

definition and_then :: "'a sql \<Rightarrow> ('a \<Rightarrow> 'b sql) \<Rightarrow> 'b sql" where
  "and_then m f = (\<lambda>db. case m db of (Inl e, db') \<Rightarrow> (Inl e, db') | (Inr x, db') \<Rightarrow> f x db')"

definition query :: "(Database \<Rightarrow> 'a) \<Rightarrow> 'a sql" where
  "query f = (\<lambda>db. (Inr (f db), db))"

definition modify :: "(Database \<Rightarrow> Database) \<Rightarrow> unit sql" where
  "modify f = (\<lambda>db. (Inr (), f db))"

fun for_each :: "'a list \<Rightarrow> ('a \<Rightarrow> unit sql) \<Rightarrow> unit sql" where
  "for_each [] body = ok ()"
| "for_each (x # xs) body = and_then (body x) (\<lambda>_. for_each xs body)"

text \<open>
  \<open>_inTransaction\<close>: refuse when a transaction is open; otherwise \<open>BEGIN\<close>, run the
  callback, and \<open>COMMIT\<close> on return or \<open>ROLLBACK\<close> on a throw if a transaction is
  still open then. A rollback restores the rows as they were at \<open>BEGIN\<close>.
\<close>

definition inTransaction :: "'a sql \<Rightarrow> 'a sql" where
  "inTransaction fn = (\<lambda>db.
     if db_inTransaction db then (Inl AlreadyInTransaction, db)
     else
       (case fn (db\<lparr>db_inTransaction := True\<rparr>) of
          (Inr result, db') \<Rightarrow>
            (Inr result, if db_inTransaction db' then db'\<lparr>db_inTransaction := False\<rparr> else db')
        | (Inl e, db') \<Rightarrow>
            (Inl e, if db_inTransaction db' then db\<lparr>db_inTransaction := False\<rparr> else db')))"

text \<open>
  \<open>INSERT\<close> into a table with an \<open>INTEGER PRIMARY KEY\<close> that the statement leaves
  out: SQLite takes the largest rowid of the table plus one, and 1 for an empty table.
\<close>

fun sql_MAX :: "int list \<Rightarrow> int option" where
  "sql_MAX [] = None"
| "sql_MAX (x # xs) = (case sql_MAX xs of None \<Rightarrow> Some x | Some m \<Rightarrow> Some (max x m))"

definition IFNULL :: "'a option \<Rightarrow> 'a \<Rightarrow> 'a" where
  "IFNULL v d = (case v of None \<Rightarrow> d | Some x \<Rightarrow> x)"

definition next_rowid :: "int list \<Rightarrow> int" where
  "next_rowid rowids = IFNULL (sql_MAX rowids) 0 + 1"

subsection \<open>The mirror and its tables\<close>

text \<open>
  The fields of a \<open>Mirror\<close>. \<open>_blacklistedIds\<close> is the dictionary that maps each
  blacklisted id to \<open>true\<close>; the list holds its keys.
\<close>

record Mirror =
  schema :: Schema
  schemaInfo :: SchemaInfo
  blacklistedIds :: "ObjectId list"

text \<open>
  What \<open>_initialize\<close> encodes into the \<open>meta\<close> row. The encoder
  \<open>json-stable-stringify\<close> is a library outside the repository and a parameter of
  the model.
\<close>

record config =
  config_version :: string
  config_schema :: Schema
  config_options :: "ObjectId list"

definition structuralTables :: "string list" where
  "structuralTables =
     [''updates'', ''objects'', ''links'', ''idx_links__parent_id__fieldname'',
      ''connections'', ''idx_connections__object_id__fieldname'',
      ''connection_entries'', ''idx_connection_entries__connection_id'']"

text \<open>\<open>CREATE TABLE\<close> and \<open>CREATE INDEX\<close> fail when the name is taken.\<close>

definition create_table :: "string \<Rightarrow> unit sql" where
  "create_table name = (\<lambda>db.
     if name \<in> set (sqlite_master db) then (Inl (SqlError ''table already exists''), db)
     else (Inr (), db\<lparr>sqlite_master := sqlite_master db @ [name]\<rparr>))"

definition create_table_if_not_exists :: "string \<Rightarrow> unit sql" where
  "create_table_if_not_exists name = (\<lambda>db.
     if name \<in> set (sqlite_master db) then (Inr (), db)
     else (Inr (), db\<lparr>sqlite_master := sqlite_master db @ [name]\<rparr>))"

text \<open>\<open>SELECT config FROM meta\<close> with \<open>.pluck().get()\<close>: the first row, if any.\<close>

definition select_config :: "Database \<Rightarrow> string option" where
  "select_config db = (case meta db of [] \<Rightarrow> None | c # _ \<Rightarrow> Some c)"

text \<open>\<open>INSERT INTO meta (zero, config) VALUES (0, ?)\<close>: the primary key is 0.\<close>

definition insert_meta :: "string \<Rightarrow> unit sql" where
  "insert_meta blob = (\<lambda>db.
     if meta db \<noteq> [] then (Inl (SqlError ''UNIQUE constraint failed: meta.zero''), db)
     else (Inr (), db\<lparr>meta := [blob]\<rparr>))"

text \<open>
  \<open>_primitivesTableName\<close> throws on a typename that is not SQL-safe; the table of
  type \<open>T\<close> is \<open>primitives_T\<close>.
\<close>

definition primitivesTableName :: "Typename \<Rightarrow> error + string" where
  "primitivesTableName typename =
     (if \<not> isSqlSafe typename then Inl (InvalidPrimitivesTableName typename)
      else Inr (''primitives_'' @ typename))"

text \<open>
  The columns of \<open>primitives_T\<close> after \<open>id\<close>: the primitive fields, the nested
  fields, then \<open>f1.f2\<close> for each primitive egg \<open>f2\<close> of each nested field \<open>f1\<close>.
\<close>

definition egg_primitives :: "ObjectTypeInfo \<Rightarrow> Fieldname \<Rightarrow> Fieldname list" where
  "egg_primitives type f1 =
     (case map_of (nestedFields type) f1 of None \<Rightarrow> [] | Some d \<Rightarrow> map fst (primitives d))"

definition egg_nodes :: "ObjectTypeInfo \<Rightarrow> Fieldname \<Rightarrow> Fieldname list" where
  "egg_nodes type f1 =
     (case map_of (nestedFields type) f1 of None \<Rightarrow> [] | Some d \<Rightarrow> map fst (nodes d))"

definition primitive_columns :: "ObjectTypeInfo \<Rightarrow> string list" where
  "primitive_columns type =
     primitiveFieldNames type @ nestedFieldNames type
     @ concat (map (\<lambda>f1. map (\<lambda>f2. f1 @ ''.'' @ f2) (egg_primitives type f1))
                 (nestedFieldNames type))"

definition create_primitives_table :: "Typename \<Rightarrow> string list \<Rightarrow> unit sql" where
  "create_primitives_table typename cols =
     (case primitivesTableName typename of
        Inl e \<Rightarrow> throw e
      | Inr tableName \<Rightarrow>
          and_then (create_table tableName) (\<lambda>_.
            modify (\<lambda>db. db\<lparr>primitives_tables := primitives_tables db
                @ [(typename, \<lparr>table_columns = cols, table_rows = []\<rparr>)]\<rparr>)))"

text \<open>The checks of \<open>_initialize\<close> on the names of one object type.\<close>

definition check_field_names :: "Fieldname list \<Rightarrow> unit sql" where
  "check_field_names names =
     for_each names (\<lambda>fieldname.
       if \<not> isSqlSafe fieldname then throw (InvalidFieldName fieldname) else ok ())"

definition check_nested_names :: "ObjectTypeInfo \<Rightarrow> unit sql" where
  "check_nested_names type =
     for_each (nestedFieldNames type) (\<lambda>fieldname.
       if \<not> isSqlSafe fieldname then throw (InvalidFieldName fieldname)
       else
         (case map_of (nestedFields type) fieldname of
            None \<Rightarrow> throw TypeError
          | Some d \<Rightarrow>
              for_each (map fst (primitives d)) (\<lambda>childFieldname.
                if \<not> isSqlSafe childFieldname
                then throw (InvalidNestedFieldName childFieldname fieldname)
                else ok ())))"

definition initialize_type :: "Typename \<times> ObjectTypeInfo \<Rightarrow> unit sql" where
  "initialize_type = (\<lambda>(typename, type).
     if \<not> isSqlSafe typename then throw (InvalidObjectTypeName typename)
     else
       and_then (check_field_names (primitiveFieldNames type)) (\<lambda>_.
       and_then (check_nested_names type) (\<lambda>_.
       create_primitives_table typename (primitive_columns type))))"

definition config_blob :: "(config \<Rightarrow> string) \<Rightarrow> Mirror \<Rightarrow> string" where
  "config_blob stringify m =
     stringify \<lparr>config_version = ''MIRROR_v3'', config_schema = schema m,
                config_options = blacklistedIds m\<rparr>"

definition initialize :: "(config \<Rightarrow> string) \<Rightarrow> Mirror \<Rightarrow> unit sql" where
  "initialize stringify m =
     (let blob = config_blob stringify m
      in inTransaction
        (and_then (create_table_if_not_exists ''meta'') (\<lambda>_.
         and_then (query select_config) (\<lambda>existingBlob.
           if existingBlob = Some blob then ok ()
           else if existingBlob \<noteq> None then throw IncompatibleConfig
           else
             and_then (insert_meta blob) (\<lambda>_.
             and_then (for_each structuralTables create_table) (\<lambda>_.
             for_each (objectTypes (schemaInfo m)) initialize_type))))))"

text \<open>The constructor: build the schema info, then initialize the database.\<close>

definition new_Mirror ::
  "(config \<Rightarrow> string) \<Rightarrow> Schema \<Rightarrow> ObjectId list \<Rightarrow> Database \<Rightarrow> (error + Mirror) \<times> Database" where
  "new_Mirror stringify s blacklisted db =
     (case buildSchemaInfo s of
        Inl e \<Rightarrow> (Inl e, db)
      | Inr info \<Rightarrow>
          (let m = \<lparr>schema = s, schemaInfo = info, blacklistedIds = blacklisted\<rparr>
           in case initialize stringify m db of
                (Inl e, db') \<Rightarrow> (Inl e, db')
              | (Inr _, db') \<Rightarrow> (Inr m, db')))"

subsection \<open>Registering objects\<close>


text \<open>\<open>SELECT typename FROM objects WHERE id = ?\<close> with \<open>.pluck().get(id)\<close>.\<close>

definition select_typename :: "ObjectId \<Rightarrow> Database \<Rightarrow> Typename option" where
  "select_typename oid db =
     map_option objects_typename (find (\<lambda>r. objects_id r = oid) (objects db))"

definition object_exists :: "ObjectId \<Rightarrow> Database \<Rightarrow> bool" where
  "object_exists oid db = (oid \<in> objects_id ` set (objects db))"

definition update_exists :: "UpdateId \<Rightarrow> Database \<Rightarrow> bool" where
  "update_exists u db = (u \<in> updates_rowid ` set (updates db))"

text \<open>
  The four \<open>INSERT\<close> statements of \<open>_nontransactionallyRegisterObject\<close>, each with
  the \<open>PRIMARY KEY\<close>, \<open>UNIQUE\<close> and \<open>FOREIGN KEY\<close> constraints that its table
  declares.
\<close>

definition insert_object :: "ObjectId \<Rightarrow> Typename \<Rightarrow> unit sql" where
  "insert_object oid typename = (\<lambda>db.
     if object_exists oid db then (Inl (SqlError ''UNIQUE constraint failed: objects.id''), db)
     else (Inr (), db\<lparr>objects := objects db
             @ [\<lparr>objects_id = oid, objects_typename = typename, objects_last_update = None\<rparr>]\<rparr>))"

definition insert_primitives_row :: "Typename \<Rightarrow> ObjectId \<Rightarrow> unit sql" where
  "insert_primitives_row typename oid = (\<lambda>db.
     case primitivesTableName typename of
       Inl e \<Rightarrow> (Inl e, db)
     | Inr _ \<Rightarrow>
        (case map_of (primitives_tables db) typename of
           None \<Rightarrow> (Inl (SqlError ''no such table''), db)
         | Some t \<Rightarrow>
            if oid \<in> primitives_id ` set (table_rows t)
            then (Inl (SqlError ''UNIQUE constraint failed: primitives.id''), db)
            else if \<not> object_exists oid db
            then (Inl (SqlError ''FOREIGN KEY constraint failed''), db)
            else (Inr (), db\<lparr>primitives_tables :=
                     map (\<lambda>(n, t'). if n = typename
                            then (n, t'\<lparr>table_rows := table_rows t'
                                   @ [\<lparr>primitives_id = oid,
                                       cells = map (\<lambda>c. (c, SqlNull)) (table_columns t')\<rparr>]\<rparr>)
                            else (n, t'))
                       (primitives_tables db)\<rparr>)))"

definition addLink :: "ObjectId \<Rightarrow> Fieldname \<Rightarrow> unit sql" where
  "addLink oid fieldname = (\<lambda>db.
     if (oid, fieldname) \<in> (\<lambda>r. (parent_id r, links_fieldname r)) ` set (links db)
     then (Inl (SqlError ''UNIQUE constraint failed: links.parent_id, links.fieldname''), db)
     else if \<not> object_exists oid db
     then (Inl (SqlError ''FOREIGN KEY constraint failed''), db)
     else (Inr (), db\<lparr>links := links db
             @ [\<lparr>links_rowid = next_rowid (map links_rowid (links db)), parent_id = oid,
                 links_fieldname = fieldname, links_child_id = None\<rparr>]\<rparr>))"

definition addConnection :: "ObjectId \<Rightarrow> Fieldname \<Rightarrow> unit sql" where
  "addConnection oid fieldname = (\<lambda>db.
     if (oid, fieldname) \<in> (\<lambda>r. (object_id r, connections_fieldname r)) ` set (connections db)
     then (Inl (SqlError
       ''UNIQUE constraint failed: connections.object_id, connections.fieldname''), db)
     else if \<not> object_exists oid db
     then (Inl (SqlError ''FOREIGN KEY constraint failed''), db)
     else (Inr (), db\<lparr>connections := connections db
             @ [\<lparr>connections_rowid = next_rowid (map connections_rowid (connections db)),
                 object_id = oid, connections_fieldname = fieldname,
                 connections_last_update = None, total_count = None,
                 has_next_page = None, end_cursor = None\<rparr>]\<rparr>))"

definition is_OBJECT :: "Type \<Rightarrow> bool" where
  "is_OBJECT t = (case t of OBJECT _ \<Rightarrow> True | _ \<Rightarrow> False)"

definition nontransactionallyRegisterObject :: "Mirror \<Rightarrow> Typename \<Rightarrow> ObjectId \<Rightarrow> unit sql" where
  "nontransactionallyRegisterObject m typename oid =
     and_then (query (select_typename oid)) (\<lambda>existingTypename.
       case existingTypename of
         Some existing \<Rightarrow>
           if existing = typename then ok ()
           else throw (InconsistentType oid existing typename)
       | None \<Rightarrow>
          (case map_of (schema m) typename of
             None \<Rightarrow> throw (UnknownType typename)
           | Some t \<Rightarrow>
               if \<not> is_OBJECT t then throw (NonObjectType typename)
               else
                 and_then (insert_object oid typename) (\<lambda>_.
                 and_then (insert_primitives_row typename oid) (\<lambda>_.
                   case map_of (objectTypes (schemaInfo m)) typename of
                     None \<Rightarrow> throw TypeError
                   | Some objectType \<Rightarrow>
                       and_then (for_each (linkFieldNames objectType) (addLink oid)) (\<lambda>_.
                       and_then
                         (for_each (nestedFieldNames objectType) (\<lambda>parentFieldname.
                            case map_of (nestedFields objectType) parentFieldname of
                              None \<Rightarrow> throw TypeError
                            | Some d \<Rightarrow>
                                for_each (map fst (nodes d)) (\<lambda>childFieldname.
                                  addLink oid (parentFieldname @ ''.'' @ childFieldname))))
                         (\<lambda>_.
                       for_each (connectionFieldNames objectType) (addConnection oid)))))))"

definition registerObject :: "Mirror \<Rightarrow> Typename \<Rightarrow> ObjectId \<Rightarrow> unit sql" where
  "registerObject m typename oid = inTransaction (nontransactionallyRegisterObject m typename oid)"

text \<open>
  A \<open>NodeFieldResult\<close> is \<open>null\<close> or an object with \<open>__typename\<close> and \<open>id\<close>.
  \<open>_nontransactionallyRegisterNodeFieldResult\<close> gives \<open>null\<close> for \<open>null\<close> and for a
  blacklisted id, and otherwise registers the object and gives its id.
\<close>

record NodeRef =
  node_typename :: Typename
  node_id :: ObjectId

type_synonym NodeFieldResult = "NodeRef option"

definition nontransactionallyRegisterNodeFieldResult ::
  "Mirror \<Rightarrow> NodeFieldResult \<Rightarrow> (ObjectId option) sql" where
  "nontransactionallyRegisterNodeFieldResult m result =
     (case result of
        None \<Rightarrow> ok None
      | Some node \<Rightarrow>
          if node_id node \<in> set (blacklistedIds m) then ok None
          else
            and_then (nontransactionallyRegisterObject m (node_typename node) (node_id node))
              (\<lambda>_. ok (Some (node_id node))))"

subsection \<open>Finding outdated objects and connections\<close>

text \<open>
  Joins as SQLite evaluates them, row by row of the left table. A row of a
  \<open>LEFT OUTER JOIN\<close> with no partner is kept once, with \<open>NULL\<close> columns on the
  right. A comparison with \<open>NULL\<close> is not true.
\<close>

definition left_outer_join ::
  "'a list \<Rightarrow> 'b list \<Rightarrow> ('a \<Rightarrow> 'b \<Rightarrow> bool) \<Rightarrow> ('a \<times> 'b option) list" where
  "left_outer_join xs ys on =
     concat (map (\<lambda>x. case filter (on x) ys of
                          [] \<Rightarrow> [(x, None)]
                        | matches \<Rightarrow> map (\<lambda>y. (x, Some y)) matches) xs)"

definition inner_join :: "'a list \<Rightarrow> 'b list \<Rightarrow> ('a \<Rightarrow> 'b \<Rightarrow> bool) \<Rightarrow> ('a \<times> 'b) list" where
  "inner_join xs ys on = concat (map (\<lambda>x. map (\<lambda>y. (x, y)) (filter (on x) ys)) xs)"

text \<open>\<open>updates.time_epoch_millis < :timeEpochMillisThreshold\<close> on a joined row.\<close>

definition older_than :: "updates_row option \<Rightarrow> int \<Rightarrow> bool" where
  "older_than u threshold =
     (case u of None \<Rightarrow> False | Some r \<Rightarrow> time_epoch_millis r < threshold)"

text \<open>A column used as a condition: true when it is a non-zero number.\<close>

definition sql_true :: "int option \<Rightarrow> bool" where
  "sql_true v = (case v of None \<Rightarrow> False | Some n \<Rightarrow> n \<noteq> 0)"

record plan_object =
  plan_typename :: Typename
  plan_id :: ObjectId

text \<open>
  An end cursor is a string or \<open>null\<close>; in a query plan it may also be
  \<open>undefined\<close>, which is the outer \<open>None\<close>.
\<close>

type_synonym EndCursor = "string option"

record plan_connection =
  objectTypename :: Typename
  objectId :: ObjectId
  plan_fieldname :: Fieldname
  plan_endCursor :: "EndCursor option"

record QueryPlan =
  plan_objects :: "plan_object list"
  plan_connections :: "plan_connection list"
  plan_typenames :: "ObjectId list"

definition outdated_objects :: "int \<Rightarrow> Database \<Rightarrow> plan_object list" where
  "outdated_objects threshold db =
     map (\<lambda>(ob, u). \<lparr>plan_typename = objects_typename ob, plan_id = objects_id ob\<rparr>)
       (filter (\<lambda>(ob, u). objects_last_update ob = None \<or> older_than u threshold)
          (left_outer_join (objects db) (updates db)
             (\<lambda>ob u. objects_last_update ob = Some (updates_rowid u))))"

definition outdated_connections :: "int \<Rightarrow> Database \<Rightarrow> plan_connection list" where
  "outdated_connections threshold db =
     map (\<lambda>((c, u), ob).
            \<lparr>objectTypename = objects_typename ob, objectId = object_id c,
             plan_fieldname = connections_fieldname c,
             plan_endCursor =
               (if connections_last_update c = None then None else Some (end_cursor c))\<rparr>)
       (filter (\<lambda>((c, u), ob).
                  sql_true (has_next_page c) \<or> connections_last_update c = None
                  \<or> older_than u threshold)
          (inner_join
             (left_outer_join (connections db) (updates db)
                (\<lambda>c u. connections_last_update c = Some (updates_rowid u)))
             (objects db)
             (\<lambda>(c, u) ob. object_id c = objects_id ob)))"

definition findOutdated :: "int \<Rightarrow> QueryPlan sql" where
  "findOutdated since =
     inTransaction
       (and_then (query (outdated_objects since)) (\<lambda>obs.
        and_then (query (outdated_connections since)) (\<lambda>cs.
        ok \<lparr>plan_objects = obs, plan_connections = cs, plan_typenames = []\<rparr>)))"

subsection \<open>Building queries\<close>

text \<open>
  Modelled from the spec: the query builder of \<open>src/graphql/queries.js\<close>, which is
  not among the source files. It produces selection-set trees with
  \<open>field(name, args, children)\<close>, \<open>alias(name, field)\<close>,
  \<open>inlineFragment(type, children)\<close>, \<open>literal(v)\<close> and \<open>list(vs)\<close>. The
  arguments of a field are a dictionary from names to values.
\<close>

datatype Value = Literal jsvalue | ListValue "Value list"

type_synonym Arguments = "(string \<times> Value) list"

datatype Selection =
    Field string Arguments "Selection list"
  | Alias string Selection
  | InlineFragment Typename "Selection list"

definition queryShallow :: "Mirror \<Rightarrow> Typename \<Rightarrow> error + Selection list" where
  "queryShallow m typename =
     (case map_of (schema m) typename of
        None \<Rightarrow> Inl (NoSuchType typename)
      | Some SCALAR \<Rightarrow> Inl (CannotSelectScalar typename)
      | Some ENUM \<Rightarrow> Inl (CannotSelectEnum typename)
      | Some (OBJECT _) \<Rightarrow> Inr [Field ''__typename'' [] [], Field ''id'' [] []]
      | Some (UNION _) \<Rightarrow>
          (case map_of (unionTypes (schemaInfo m)) typename of
             None \<Rightarrow> Inl TypeError
           | Some clauses \<Rightarrow>
               Inr (Field ''__typename'' [] []
                    # map (\<lambda>clause. InlineFragment clause [Field ''id'' [] []]) clauses)))"

text \<open>The literal of an end cursor that is not \<open>undefined\<close>.\<close>

definition cursor_literal :: "EndCursor \<Rightarrow> Value" where
  "cursor_literal endCursor =
     Literal (case endCursor of None \<Rightarrow> JNull | Some c \<Rightarrow> JString c)"

definition queryConnection ::
  "Mirror \<Rightarrow> Typename \<Rightarrow> Fieldname \<Rightarrow> EndCursor option \<Rightarrow> int \<Rightarrow> error + Selection list" where
  "queryConnection m typename fieldname endCursor connectionPageSize =
     (case map_of (schema m) typename of
        None \<Rightarrow> Inl (NoSuchType typename)
      | Some t \<Rightarrow>
          if \<not> is_OBJECT t then Inl (ConnectionOnNonObject typename)
          else
            (case map_of (objectTypes (schemaInfo m)) typename of
               None \<Rightarrow> Inl TypeError
             | Some objectType \<Rightarrow>
                 (case map_of (type_fields objectType) fieldname of
                    None \<Rightarrow> Inl (NoSuchField typename fieldname)
                  | Some (CONNECTION elementType) \<Rightarrow>
                      (let connectionArguments =
                             [(''first'', Literal (JNumber connectionPageSize))]
                             @ (case endCursor of
                                  None \<Rightarrow> []
                                | Some c \<Rightarrow> [(''after'', cursor_literal c)])
                       in case queryShallow m elementType of
                            Inl e \<Rightarrow> Inl e
                          | Inr shallow \<Rightarrow>
                              Inr [Field fieldname connectionArguments
                                     [Field ''totalCount'' [] [],
                                      Field ''pageInfo'' []
                                        [Field ''endCursor'' [] [], Field ''hasNextPage'' [] []],
                                      Field ''nodes'' [] shallow]])
                  | Some _ \<Rightarrow> Inl (NotAConnection typename fieldname))))"

subsection \<open>Ingesting a page of a connection\<close>

record ConnectionFieldResult =
  totalCount :: int
  hasNextPage :: bool
  endCursor :: EndCursor
  result_nodes :: "NodeFieldResult list"









subsection \<open>Ingesting own data\<close>

text \<open>
  An element of an \<open>OwnDataUpdateResult\<close>: an object with \<open>__typename\<close>, \<open>id\<close>
  and further keys. \<open>entry[fieldname]\<close> is \<open>entry_get entry fieldname\<close>, and
  \<open>None\<close> is \<open>undefined\<close>. Properties of a value that is not an object are not
  modelled: reading one gives \<open>undefined\<close>.
\<close>

record OwnDataEntry =
  entry_typename :: Typename
  entry_id :: ObjectId
  entry_fields :: "(Fieldname \<times> jsvalue) list"

definition entry_get :: "OwnDataEntry \<Rightarrow> Fieldname \<Rightarrow> jsvalue option" where
  "entry_get entry fieldname =
     (if fieldname = ''__typename'' then Some (JString (entry_typename entry))
      else if fieldname = ''id'' then Some (JString (entry_id entry))
      else map_of (entry_fields entry) fieldname)"

definition get_prop :: "jsvalue \<Rightarrow> string \<Rightarrow> jsvalue option" where
  "get_prop v k = (case v of JObject kvs \<Rightarrow> map_of kvs k | _ \<Rightarrow> None)"

text \<open>
  \<open>topLevelNested == null ? null : topLevelNested[childFieldname]\<close>; both
  \<open>undefined\<close> and \<open>null\<close> are \<open>== null\<close>.
\<close>

fun nested_child :: "jsvalue option \<Rightarrow> Fieldname \<Rightarrow> jsvalue option" where
  "nested_child None childFieldname = Some JNull"
| "nested_child (Some JNull) childFieldname = Some JNull"
| "nested_child (Some v) childFieldname = get_prop v childFieldname"

text \<open>
  The cast of a field's value to \<open>NodeFieldResult\<close>. A value that is neither
  \<open>null\<close> nor an object with strings \<open>__typename\<close> and \<open>id\<close> is outside the type
  that the response has by contract; the model stops there with an error.
\<close>

definition as_NodeFieldResult :: "jsvalue \<Rightarrow> error + NodeFieldResult" where
  "as_NodeFieldResult v =
     (case v of
        JNull \<Rightarrow> Inr None
      | JObject kvs \<Rightarrow>
          (case (map_of kvs ''__typename'', map_of kvs ''id'') of
             (Some (JString t), Some (JString i)) \<Rightarrow>
               Inr (Some \<lparr>node_typename = t, node_id = i\<rparr>)
           | _ \<Rightarrow> Inl IllTypedResult)
      | _ \<Rightarrow> Inl IllTypedResult)"

text \<open>
  \<open>_makeSingleUpdateFunction\<close>: run the statement, then throw unless it changed
  exactly one row. What the statement did stays.
\<close>

definition makeSingleUpdateFunction :: "nat sql \<Rightarrow> unit sql" where
  "makeSingleUpdateFunction stmt =
     and_then stmt (\<lambda>changes. if changes \<noteq> 1 then throw (BadChangeCount changes) else ok ())"

text \<open>\<open>UPDATE objects SET last_update = :updateId WHERE id = :objectId\<close>.\<close>

definition update_last_update :: "UpdateId \<Rightarrow> ObjectId \<Rightarrow> nat sql" where
  "update_last_update updateId oid = (\<lambda>db.
     if object_exists oid db \<and> \<not> update_exists updateId db
     then (Inl (SqlError ''FOREIGN KEY constraint failed''), db)
     else (Inr (length (filter (\<lambda>r. objects_id r = oid) (objects db))),
           db\<lparr>objects := map (\<lambda>r. if objects_id r = oid
                                   then r\<lparr>objects_last_update := Some updateId\<rparr> else r)
                             (objects db)\<rparr>))"

definition setLastUpdate :: "UpdateId \<Rightarrow> ObjectId \<Rightarrow> unit sql" where
  "setLastUpdate updateId oid = makeSingleUpdateFunction (update_last_update updateId oid)"

text \<open>
  \<open>UPDATE links SET child_id = :childId WHERE parent_id = :parentId AND fieldname = :fieldname\<close>.
\<close>

definition update_link :: "ObjectId \<Rightarrow> Fieldname \<Rightarrow> ObjectId option \<Rightarrow> nat sql" where
  "update_link parentId fieldname childId = (\<lambda>db.
     let hit = (\<lambda>r. parent_id r = parentId \<and> links_fieldname r = fieldname)
     in if (\<exists>r \<in> set (links db). hit r)
           \<and> (case childId of None \<Rightarrow> False | Some c \<Rightarrow> \<not> object_exists c db)
        then (Inl (SqlError ''FOREIGN KEY constraint failed''), db)
        else (Inr (length (filter hit (links db))),
              db\<lparr>links := map (\<lambda>r. if hit r then r\<lparr>links_child_id := childId\<rparr> else r)
                              (links db)\<rparr>))"

definition updateLink :: "ObjectId \<Rightarrow> Fieldname \<Rightarrow> ObjectId option \<Rightarrow> unit sql" where
  "updateLink parentId fieldname childId =
     makeSingleUpdateFunction (update_link parentId fieldname childId)"

text \<open>
  The \<open>SET\<close> clauses of the statement that updates a row of \<open>primitives_T\<close>, each
  a column and the name of its parameter.
\<close>

definition primitive_updates :: "ObjectTypeInfo \<Rightarrow> (string \<times> string) list" where
  "primitive_updates objectType =
     map (\<lambda>f. (f, topLevelField f)) (primitiveFieldNames objectType)
     @ map (\<lambda>f. (f, topLevelField f)) (nestedFieldNames objectType)
     @ concat (map (\<lambda>f1. map (\<lambda>f2. (f1 @ ''.'' @ f2, nestedField f1 f2))
                           (egg_primitives objectType f1))
                 (nestedFieldNames objectType))"

definition nested_fields_defined :: "ObjectTypeInfo \<Rightarrow> bool" where
  "nested_fields_defined objectType =
     list_all (\<lambda>f. map_of (nestedFields objectType) f \<noteq> None) (nestedFieldNames objectType)"

text \<open>
  Building \<open>updatePrimitives\<close>: with no \<open>SET\<close> clause it is a function that does
  nothing; otherwise the statement is prepared, which needs the table and its
  columns to exist.
\<close>

definition prepare_updatePrimitives :: "Typename \<Rightarrow> ObjectTypeInfo \<Rightarrow> unit sql" where
  "prepare_updatePrimitives typename objectType = (\<lambda>db.
     if \<not> nested_fields_defined objectType then (Inl TypeError, db)
     else if primitive_updates objectType = [] then (Inr (), db)
     else
       (case primitivesTableName typename of
          Inl e \<Rightarrow> (Inl e, db)
        | Inr _ \<Rightarrow>
           (case map_of (primitives_tables db) typename of
              None \<Rightarrow> (Inl (SqlError ''no such table''), db)
            | Some t \<Rightarrow>
                if \<not> set (map fst (primitive_updates objectType)) \<subseteq> set (table_columns t)
                then (Inl (SqlError ''no such column''), db)
                else (Inr (), db))))"

text \<open>Assigning a column of a row.\<close>

definition set_cell :: "string \<Rightarrow> cell \<Rightarrow> (string \<times> cell) list \<Rightarrow> (string \<times> cell) list" where
  "set_cell col v cs = map (\<lambda>(c, old). if c = col then (c, v) else (c, old)) cs"

text \<open>
  Running the prepared statement with the dictionary \<open>primitives\<close> of parameters
  and \<open>:id\<close>. Every parameter of the statement must be bound.
\<close>

definition update_primitives_row ::
  "Typename \<Rightarrow> (string \<times> string) list \<Rightarrow> ObjectId \<Rightarrow> (string \<rightharpoonup> cell) \<Rightarrow> nat sql" where
  "update_primitives_row typename sets oid params = (\<lambda>db.
     if \<exists>(col, p) \<in> set sets. params p = None
     then (Inl (SqlError ''missing named parameter''), db)
     else
       (case map_of (primitives_tables db) typename of
          None \<Rightarrow> (Inl (SqlError ''no such table''), db)
        | Some t \<Rightarrow>
           (Inr (length (filter (\<lambda>r. primitives_id r = oid) (table_rows t))),
            db\<lparr>primitives_tables :=
                 map (\<lambda>(n, t'). if n = typename
                        then (n, t'\<lparr>table_rows :=
                               map (\<lambda>r. if primitives_id r = oid
                                         then r\<lparr>cells := fold (\<lambda>(col, p). set_cell col
                                                    (case params p of None \<Rightarrow> SqlNull
                                                     | Some v \<Rightarrow> v)) sets (cells r)\<rparr>
                                         else r) (table_rows t')\<rparr>)
                        else (n, t'))
                   (primitives_tables db)\<rparr>)))"

definition updatePrimitives ::
  "Typename \<Rightarrow> ObjectTypeInfo \<Rightarrow> ObjectId \<Rightarrow> (string \<rightharpoonup> cell) \<Rightarrow> unit sql" where
  "updatePrimitives typename objectType oid params =
     (if primitive_updates objectType = [] then ok ()
      else makeSingleUpdateFunction
             (update_primitives_row typename (primitive_updates objectType) oid params))"

text \<open>The parameters of one entry: top-level primitives, then nested fields.\<close>

definition add_top_level_primitive ::
  "Typename \<Rightarrow> OwnDataEntry \<Rightarrow> (string \<rightharpoonup> cell) \<Rightarrow> Fieldname \<Rightarrow> error + (string \<rightharpoonup> cell)" where
  "add_top_level_primitive typename entry params fieldname =
     (case entry_get entry fieldname of
        None \<Rightarrow> Inl (MissingPrimitive fieldname (entry_id entry) typename)
      | Some primitive \<Rightarrow> Inr (params(topLevelField fieldname \<mapsto> SqlJson primitive)))"

definition add_egg_primitive ::
  "Typename \<Rightarrow> OwnDataEntry \<Rightarrow> Fieldname \<Rightarrow> jsvalue option \<Rightarrow> (string \<rightharpoonup> cell) \<Rightarrow> Fieldname
   \<Rightarrow> error + (string \<rightharpoonup> cell)" where
  "add_egg_primitive typename entry nestFieldname topLevelNested params eggFieldname =
     (case nested_child topLevelNested eggFieldname of
        None \<Rightarrow> Inl (MissingNestedEgg nestFieldname eggFieldname (entry_id entry) typename)
      | Some primitive \<Rightarrow>
          Inr (params(nestedField nestFieldname eggFieldname \<mapsto> SqlJson primitive)))"

definition add_nested_primitives ::
  "Typename \<Rightarrow> ObjectTypeInfo \<Rightarrow> OwnDataEntry \<Rightarrow> (string \<rightharpoonup> cell) \<Rightarrow> Fieldname
   \<Rightarrow> error + (string \<rightharpoonup> cell)" where
  "add_nested_primitives typename objectType entry params nestFieldname =
     (case entry_get entry nestFieldname of
        None \<Rightarrow> Inl (MissingNestedField nestFieldname (entry_id entry) typename)
      | Some topLevelNested \<Rightarrow>
          fold_err (add_egg_primitive typename entry nestFieldname (Some topLevelNested))
            (egg_primitives objectType nestFieldname)
            (params(topLevelField nestFieldname \<mapsto>
               SqlInteger (if topLevelNested = JNull then 0 else 1))))"

definition entry_primitives ::
  "Typename \<Rightarrow> ObjectTypeInfo \<Rightarrow> OwnDataEntry \<Rightarrow> error + (string \<rightharpoonup> cell)" where
  "entry_primitives typename objectType entry =
     (case fold_err (add_top_level_primitive typename entry)
             (primitiveFieldNames objectType) Map.empty of
        Inl e \<Rightarrow> Inl e
      | Inr params \<Rightarrow>
          fold_err (add_nested_primitives typename objectType entry)
            (nestedFieldNames objectType) params)"

text \<open>The first loop: every entry names an object of the table, of the one type.\<close>

definition check_entry :: "Typename \<Rightarrow> OwnDataEntry \<Rightarrow> unit sql" where
  "check_entry typename entry = (\<lambda>db.
     if \<not> object_exists (entry_id entry) db then (Inl (NonexistentNode (entry_id entry)), db)
     else if entry_typename entry \<noteq> typename
     then (Inl (InconsistentTypenames typename (entry_typename entry)), db)
     else (Inr (), db))"

text \<open>Registering the target of one link and storing it.\<close>

definition store_link :: "Mirror \<Rightarrow> ObjectId \<Rightarrow> Fieldname \<Rightarrow> jsvalue \<Rightarrow> unit sql" where
  "store_link m parentId fieldname v =
     (case as_NodeFieldResult v of
        Inl e \<Rightarrow> throw e
      | Inr link \<Rightarrow>
          and_then (nontransactionallyRegisterNodeFieldResult m link) (\<lambda>childId.
          updateLink parentId fieldname childId))"

definition update_entry_links ::
  "Mirror \<Rightarrow> Typename \<Rightarrow> ObjectTypeInfo \<Rightarrow> OwnDataEntry \<Rightarrow> unit sql" where
  "update_entry_links m typename objectType entry =
     and_then
       (for_each (linkFieldNames objectType) (\<lambda>fieldname.
          case entry_get entry fieldname of
            None \<Rightarrow> throw (MissingNodeReference fieldname (entry_id entry) typename)
          | Some v \<Rightarrow> store_link m (entry_id entry) fieldname v))
       (\<lambda>_.
     for_each (nestedFieldNames objectType) (\<lambda>nestFieldname.
       for_each (egg_nodes objectType nestFieldname) (\<lambda>childFieldname.
         case nested_child (entry_get entry nestFieldname) childFieldname of
           None \<Rightarrow>
             throw (MissingNestedEgg nestFieldname childFieldname (entry_id entry) typename)
         | Some v \<Rightarrow>
             store_link m (entry_id entry) (nestFieldname @ ''.'' @ childFieldname) v)))"

definition nontransactionallyUpdateOwnData ::
  "Mirror \<Rightarrow> UpdateId \<Rightarrow> OwnDataEntry list \<Rightarrow> unit sql" where
  "nontransactionallyUpdateOwnData m updateId queryResult =
     (case queryResult of
        [] \<Rightarrow> ok ()
      | first # _ \<Rightarrow>
         (let typename = entry_typename first
          in case map_of (schema m) typename of
               None \<Rightarrow> throw (UnknownType typename)
             | Some t \<Rightarrow>
                 if \<not> is_OBJECT t then throw (CannotUpdateNonObjectType typename)
                 else
                   and_then (for_each queryResult (check_entry typename)) (\<lambda>_.
                   and_then (for_each queryResult
                               (\<lambda>entry. setLastUpdate updateId (entry_id entry))) (\<lambda>_.
                   case map_of (objectTypes (schemaInfo m)) typename of
                     None \<Rightarrow> throw TypeError
                   | Some objectType \<Rightarrow>
                       and_then (prepare_updatePrimitives typename objectType) (\<lambda>_.
                       and_then
                         (for_each queryResult (\<lambda>entry.
                            case entry_primitives typename objectType entry of
                              Inl e \<Rightarrow> throw e
                            | Inr params \<Rightarrow>
                                updatePrimitives typename objectType (entry_id entry) params))
                         (\<lambda>_.
                       for_each queryResult (update_entry_links m typename objectType)))))))"


subsection \<open>Ingesting a response\<close>









subsection \<open>Extracting an object and its transitive dependencies\<close>

text \<open>
  The result of \<open>extract\<close> is a graph of JavaScript objects that may have cycles.
  It is modelled by the map \<open>allObjects\<close> from ids to objects; a reference to an
  object is the id under which \<open>allObjects\<close> holds it, and \<open>None\<close> is \<open>null\<close>.
  A field of an extracted object holds a primitive value, a reference, a nested
  object (or \<open>null\<close>) whose eggs hold primitives and references, or the array of
  references of a connection.
\<close>

datatype egg_slot = EggPrimitive jsvalue | EggReference "ObjectId option"

datatype slot =
    Primitive jsvalue
  | Reference "ObjectId option"
  | NestedSlot "(Fieldname \<rightharpoonup> egg_slot) option"
  | ConnectionSlot "ObjectId option list"

type_synonym extracted_object = "Fieldname \<rightharpoonup> slot"

text \<open>
  The temporary table is created, filled, read and dropped within one call; the
  model keeps it as a value. \<open>direct_dependencies\<close> is the first common table
  expression: a \<open>UNION\<close> keeps one copy of each row.
\<close>

definition direct_dependencies :: "Database \<Rightarrow> (ObjectId \<times> ObjectId) list" where
  "direct_dependencies db =
     remdups
       (concat (map (\<lambda>l. case links_child_id l of
                             None \<Rightarrow> []
                           | Some child \<Rightarrow> [(parent_id l, child)]) (links db))
        @ concat (map (\<lambda>(c, e). case entries_child_id e of
                                   None \<Rightarrow> []
                                 | Some child \<Rightarrow> [(object_id c, child)])
                   (inner_join (connections db) (connection_entries db)
                      (\<lambda>c e. connections_rowid c = connection_id e))))"

text \<open>
  The recursive common table expression, as SQLite runs it: take a row from the
  queue, and add to the queue and to the result the children of that row that were
  never produced before.
\<close>

definition new_children ::
  "(ObjectId \<times> ObjectId) list \<Rightarrow> ObjectId list \<Rightarrow> ObjectId \<Rightarrow> ObjectId list" where
  "new_children deps seen x =
     remdups (filter (\<lambda>c. c \<notin> set seen) (map snd (filter (\<lambda>(p, c). p = x) deps)))"

function transitive_dependencies ::
  "(ObjectId \<times> ObjectId) list \<Rightarrow> ObjectId list \<Rightarrow> ObjectId list \<Rightarrow> ObjectId list" where
  "transitive_dependencies deps [] seen = seen"
| "transitive_dependencies deps (x # queue) seen =
     transitive_dependencies deps (queue @ new_children deps seen x)
       (seen @ new_children deps seen x)"
  by pat_completeness auto

termination
proof (relation "measures [\<lambda>(deps, queue, seen). card (snd ` set deps - set seen),
                            \<lambda>(deps, queue, seen). length queue]")
  show "wf (measures [\<lambda>(deps, queue, seen). card (snd ` set deps - set seen),
                      \<lambda>(deps, queue, seen). length queue])"
    by simp
next
  fix deps :: "(ObjectId \<times> ObjectId) list" and x queue seen
  let ?new = "new_children deps seen x"
  let ?D = "snd ` set deps"
  show "((deps, queue @ ?new, seen @ ?new), (deps, x # queue, seen))
        \<in> measures [\<lambda>(deps, queue, seen). card (snd ` set deps - set seen),
                     \<lambda>(deps, queue, seen). length queue]"
  proof (cases "?new = []")
    case True
    then show ?thesis by simp
  next
    case False
    then obtain c where c: "c \<in> set ?new" by (cases ?new) auto
    have sub: "set ?new \<subseteq> ?D - set seen"
      by (auto simp: new_children_def)
    have "?D - set (seen @ ?new) \<subset> ?D - set seen"
      using c sub by auto
    then have "card (?D - set (seen @ ?new)) < card (?D - set seen)"
      by (intro psubset_card_mono) auto
    then show ?thesis by simp
  qed
qed

declare transitive_dependencies.simps [simp del]

definition dependencies_table :: "ObjectId \<Rightarrow> Database \<Rightarrow> (ObjectId \<times> Typename) list" where
  "dependencies_table rootId db =
     map (\<lambda>(ob, d). (objects_id ob, objects_typename ob))
       (inner_join (objects db)
          (transitive_dependencies (direct_dependencies db) [rootId] [rootId])
          (\<lambda>ob d. objects_id ob = d))"

text \<open>
  The query for an object or a connection that was never updated: the rows of the
  first \<open>SELECT\<close>, then those of the second; \<open>.get()\<close> takes the first row.
\<close>

definition never_updated ::
  "(ObjectId \<times> Typename) list \<Rightarrow> Database \<Rightarrow> (ObjectId \<times> Fieldname option) list" where
  "never_updated temp db =
     map (\<lambda>(t, ob). (objects_id ob, None))
       (filter (\<lambda>(t, ob). objects_last_update ob = None)
          (inner_join temp (objects db) (\<lambda>t ob. fst t = objects_id ob)))
     @ map (\<lambda>((t, ob), c). (objects_id ob, map_option connections_fieldname c))
         (filter (\<lambda>((t, ob), c). case c of
                                    None \<Rightarrow> False
                                  | Some r \<Rightarrow> connections_last_update r = None)
            (left_outer_join
               (inner_join temp (objects db) (\<lambda>t ob. fst t = objects_id ob))
               (connections db)
               (\<lambda>(t, ob) c. objects_id ob = object_id c)))"

definition check_freshness ::
  "ObjectId \<Rightarrow> (ObjectId \<times> Typename) list \<Rightarrow> Database \<Rightarrow> error + unit" where
  "check_freshness rootId temp db =
     (case never_updated temp db of
        [] \<Rightarrow> Inr ()
      | (oid, None) # _ \<Rightarrow> Inl (NeverFetchedOwnData rootId oid)
      | (oid, Some fieldname) # _ \<Rightarrow> Inl (NeverFetchedConnection rootId oid fieldname))"

text \<open>\<open>key.split(".")\<close>.\<close>

fun split_dot :: "string \<Rightarrow> string list" where
  "split_dot [] = [[]]"
| "split_dot (c # cs) =
     (if c = CHR ''.'' then [] # split_dot cs
      else (case split_dot cs of [] \<Rightarrow> [[c]] | part # parts \<Rightarrow> (c # part) # parts))"

text \<open>
  Storing a value under a column or link name: at top level for a name without a
  dot, and in the nested object, unless that is \<open>null\<close>, for a name \<open>nest.egg\<close>.
\<close>

definition place ::
  "extracted_object \<Rightarrow> string \<Rightarrow> slot \<Rightarrow> egg_slot \<Rightarrow> error \<Rightarrow> error + extracted_object" where
  "place object key whole egg bad =
     (case split_dot key of
        [_] \<Rightarrow> Inr (object(key \<mapsto> whole))
      | [nestName, eggName] \<Rightarrow>
          (case object nestName of
             Some (NestedSlot None) \<Rightarrow> Inr object
           | Some (NestedSlot (Some eggs)) \<Rightarrow>
               Inr (object(nestName \<mapsto> NestedSlot (Some (eggs(eggName \<mapsto> egg)))))
           | _ \<Rightarrow> Inl TypeError)
      | _ \<Rightarrow> Inl bad)"

text \<open>\<open>JSON.parse\<close> of a column value; \<open>JSON.parse(null)\<close> is \<open>null\<close>.\<close>

definition json_parse :: "cell \<Rightarrow> jsvalue" where
  "json_parse rawValue =
     (case rawValue of SqlJson v \<Rightarrow> v | SqlNull \<Rightarrow> JNull | SqlInteger n \<Rightarrow> JNumber n)"

text \<open>
  The rows of \<open>primitives_T\<close> joined with the temporary table, each with its id
  and the selected columns.
\<close>

definition select_primitives ::
  "Typename \<Rightarrow> ObjectTypeInfo \<Rightarrow> (ObjectId \<times> Typename) list \<Rightarrow> Database
   \<Rightarrow> error + (ObjectId \<times> (string \<times> cell) list) list" where
  "select_primitives typename objectType temp db =
     (case primitivesTableName typename of
        Inl e \<Rightarrow> Inl e
      | Inr _ \<Rightarrow>
         (case map_of (primitives_tables db) typename of
            None \<Rightarrow> Inl (SqlError ''no such table'')
          | Some t \<Rightarrow>
              if \<not> set (primitive_columns objectType) \<subseteq> set (table_columns t)
              then Inl (SqlError ''no such column'')
              else Inr (map (\<lambda>(d, r). (primitives_id r,
                              map (\<lambda>col. (col, case map_of (cells r) col of
                                                  None \<Rightarrow> SqlNull | Some v \<Rightarrow> v))
                                (primitive_columns objectType)))
                         (inner_join temp (table_rows t) (\<lambda>d r. fst d = primitives_id r)))))"

definition add_nested_slot ::
  "ObjectId \<Rightarrow> (string \<times> cell) list \<Rightarrow> extracted_object \<Rightarrow> Fieldname \<Rightarrow> error + extracted_object" where
  "add_nested_slot oid row object fieldname =
     (case map_of row fieldname of
        Some (SqlInteger n) \<Rightarrow>
          if n = 1 then Inr (object(fieldname \<mapsto> NestedSlot (Some Map.empty)))
          else if n = 0 then Inr (object(fieldname \<mapsto> NestedSlot None))
          else Inl (CorruptionNestedField fieldname oid)
      | _ \<Rightarrow> Inl (CorruptionNestedField fieldname oid))"

definition add_column :: "extracted_object \<Rightarrow> string \<times> cell \<Rightarrow> error + extracted_object" where
  "add_column object = (\<lambda>(key, rawValue).
     if key = ''id'' then Inr object
     else if rawValue = SqlInteger 0 \<or> rawValue = SqlInteger 1 then Inr object
     else place object key (Primitive (json_parse rawValue)) (EggPrimitive (json_parse rawValue))
            (CorruptionBadFieldName key))"

definition build_object ::
  "Typename \<Rightarrow> ObjectTypeInfo \<Rightarrow> ObjectId \<times> (string \<times> cell) list \<Rightarrow> error + extracted_object" where
  "build_object typename objectType = (\<lambda>(oid, row).
     case fold_err (add_nested_slot oid row) (nestedFieldNames objectType)
            [''id'' \<mapsto> Primitive (JString oid), ''__typename'' \<mapsto> Primitive (JString typename)] of
       Inl e \<Rightarrow> Inl e
     | Inr object \<Rightarrow> fold_err add_column row object)"

definition add_objects_of_type ::
  "Mirror \<Rightarrow> (ObjectId \<times> Typename) list \<Rightarrow> Database \<Rightarrow> (ObjectId \<rightharpoonup> extracted_object)
   \<Rightarrow> Typename \<Rightarrow> error + (ObjectId \<rightharpoonup> extracted_object)" where
  "add_objects_of_type m temp db allObjects typename =
     (case map_of (objectTypes (schemaInfo m)) typename of
        None \<Rightarrow> Inl (CorruptionUnknownObjectType typename)
      | Some objectType \<Rightarrow>
         (case select_primitives typename objectType temp db of
            Inl e \<Rightarrow> Inl e
          | Inr rows \<Rightarrow>
              fold_err (\<lambda>all row. case build_object typename objectType row of
                                    Inl e \<Rightarrow> Inl e
                                  | Inr object \<Rightarrow> Inr (all(fst row \<mapsto> object)))
                rows allObjects))"

text \<open>
  Modelled from the spec: \<open>NullUtil.get\<close> of \<open>src/util/null.js\<close>, which is not
  among the source files; the extractor resolves parent and child through the map
  of objects, and the helper throws when there is none.
\<close>

definition NullUtil_get :: "'a option \<Rightarrow> error + 'a" where
  "NullUtil_get v = (case v of None \<Rightarrow> Inl NullUtilGet | Some x \<Rightarrow> Inr x)"

definition resolve_child ::
  "(ObjectId \<rightharpoonup> extracted_object) \<Rightarrow> ObjectId option \<Rightarrow> error + ObjectId option" where
  "resolve_child allObjects childId =
     (case childId of
        None \<Rightarrow> Inr None
      | Some c \<Rightarrow> (case NullUtil_get (allObjects c) of Inl e \<Rightarrow> Inl e | Inr _ \<Rightarrow> Inr (Some c)))"

definition add_link ::
  "(ObjectId \<rightharpoonup> extracted_object) \<Rightarrow> links_row \<Rightarrow> error + (ObjectId \<rightharpoonup> extracted_object)" where
  "add_link allObjects link =
     (case NullUtil_get (allObjects (parent_id link)) of
        Inl e \<Rightarrow> Inl e
      | Inr parent \<Rightarrow>
         (case resolve_child allObjects (links_child_id link) of
            Inl e \<Rightarrow> Inl e
          | Inr child \<Rightarrow>
             (case place parent (links_fieldname link) (Reference child) (EggReference child)
                     (CorruptionBadLinkName (links_fieldname link)) of
                Inl e \<Rightarrow> Inl e
              | Inr parent' \<Rightarrow> Inr (allObjects(parent_id link \<mapsto> parent')))))"

definition select_links :: "(ObjectId \<times> Typename) list \<Rightarrow> Database \<Rightarrow> links_row list" where
  "select_links temp db = map snd (inner_join temp (links db) (\<lambda>d l. fst d = parent_id l))"

text \<open>
  The rows of the connection query, ordered by object id, fieldname and index;
  \<open>NULL\<close> sorts first.
\<close>

definition select_connection_data ::
  "(ObjectId \<times> Typename) list \<Rightarrow> Database \<Rightarrow> (ObjectId \<times> Fieldname \<times> bool \<times> ObjectId option) list" where
  "select_connection_data temp db =
     map (\<lambda>(((d, ob), c), e).
            (objects_id ob, connections_fieldname c, e \<noteq> None,
             case e of None \<Rightarrow> None | Some r \<Rightarrow> entries_child_id r))
       (sort_key (\<lambda>(((d, ob), c), e). (objects_id ob, connections_fieldname c, map_option idx e))
          (left_outer_join
             (inner_join
                (inner_join temp (objects db) (\<lambda>d ob. fst d = objects_id ob))
                (connections db)
                (\<lambda>(d, ob) c. objects_id ob = object_id c))
             (connection_entries db)
             (\<lambda>((d, ob), c) e. connections_rowid c = connection_id e)))"

definition add_connection_datum ::
  "(ObjectId \<rightharpoonup> extracted_object) \<Rightarrow> ObjectId \<times> Fieldname \<times> bool \<times> ObjectId option
   \<Rightarrow> error + (ObjectId \<rightharpoonup> extracted_object)" where
  "add_connection_datum allObjects = (\<lambda>(parentId, fieldname, hasContents, childId).
     case NullUtil_get (allObjects parentId) of
       Inl e \<Rightarrow> Inl e
     | Inr parent0 \<Rightarrow>
        (let parent = (if parent0 fieldname = None
                       then parent0(fieldname \<mapsto> ConnectionSlot []) else parent0)
         in if \<not> hasContents then Inr (allObjects(parentId \<mapsto> parent))
            else
              (case resolve_child allObjects childId of
                 Inl e \<Rightarrow> Inl e
               | Inr child \<Rightarrow>
                  (case parent fieldname of
                     Some (ConnectionSlot entries) \<Rightarrow>
                       Inr (allObjects(parentId \<mapsto>
                              parent(fieldname \<mapsto> ConnectionSlot (entries @ [child]))))
                   | _ \<Rightarrow> Inl TypeError))))"

definition extract_from ::
  "Mirror \<Rightarrow> ObjectId \<Rightarrow> Database
   \<Rightarrow> error + (extracted_object \<times> (ObjectId \<rightharpoonup> extracted_object))" where
  "extract_from m rootId db =
     (let temp = dependencies_table rootId db
      in if \<not> distinct (map fst temp)
         then Inl (SqlError ''UNIQUE constraint failed: tmp_transitive_dependencies.id'')
         else
           (case check_freshness rootId temp db of
              Inl e \<Rightarrow> Inl e
            | Inr _ \<Rightarrow>
               (case fold_err (add_objects_of_type m temp db) (remdups (map snd temp))
                       Map.empty of
                  Inl e \<Rightarrow> Inl e
                | Inr objects1 \<Rightarrow>
                   (case fold_err add_link (select_links temp db) objects1 of
                      Inl e \<Rightarrow> Inl e
                    | Inr objects2 \<Rightarrow>
                       (case fold_err add_connection_datum (select_connection_data temp db)
                               objects2 of
                          Inl e \<Rightarrow> Inl e
                        | Inr allObjects \<Rightarrow>
                           (case allObjects rootId of
                              None \<Rightarrow> Inl (NoSuchObject rootId)
                            | Some result \<Rightarrow> Inr (result, allObjects)))))))"

text \<open>The method \<open>extract\<close>; the name is a keyword of Isabelle.\<close>

definition mirror_extract ::
  "Mirror \<Rightarrow> ObjectId \<Rightarrow> (extracted_object \<times> (ObjectId \<rightharpoonup> extracted_object)) sql" where
  "mirror_extract m rootId = inTransaction (\<lambda>db. (extract_from m rootId db, db))"

text \<open>
  No link and no connection entry has a blacklisted id as its child.
\<close>

definition no_blacklisted_child :: "Mirror \<Rightarrow> Database \<Rightarrow> bool" where
  "no_blacklisted_child m db \<longleftrightarrow>
     (\<forall>x \<in> set (blacklistedIds m).
        Some x \<notin> links_child_id ` set (links db)
        \<and> Some x \<notin> entries_child_id ` set (connection_entries db))"










subsection \<open>A small schema and the states of one run\<close>



definition example_stringify :: "config \<Rightarrow> string" where
  "example_stringify c =
     config_version c @ concat (map fst (config_schema c)) @ concat (config_options c)"

definition example_mirror :: Mirror where
  "example_mirror =
     \<lparr>schema =
         [(''Issue'',
           OBJECT
            [(''id'', ID), (''title'', PRIMITIVE),
             (''author'', NODE ''User'' FAITHFUL),
             (''comments'', CONNECTION ''User''),
             (''meta_data'',
              NESTED
               [(''date'', EGG_PRIMITIVE),
                (''user'', EGG_NODE ''User'' FAITHFUL)])]),
          (''User'', OBJECT [(''id'', ID), (''login'', PRIMITIVE)]),
          (''Actor'', UNION [''User'']), (''Date'', SCALAR)],
         schemaInfo =
           \<lparr>objectTypes =
              [(''Issue'',
                \<lparr>type_fields =
                   [(''id'', ID), (''title'', PRIMITIVE),
                    (''author'', NODE ''User'' FAITHFUL),
                    (''comments'', CONNECTION ''User''),
                    (''meta_data'',
                     NESTED
                      [(''date'', EGG_PRIMITIVE),
                       (''user'', EGG_NODE ''User'' FAITHFUL)])],
                   nestedFields =
                     [(''meta_data'',
                       \<lparr>primitives = [(''date'', EGG_PRIMITIVE)],
                          nodes = [(''user'', EGG_NODE ''User'' FAITHFUL)]\<rparr>)],
                   primitiveFieldNames = [''title''],
                   linkFieldNames = [''author''],
                   connectionFieldNames = [''comments''],
                   nestedFieldNames = [''meta_data'']\<rparr>),
               (''User'',
                \<lparr>type_fields = [(''id'', ID), (''login'', PRIMITIVE)],
                   nestedFields = [], primitiveFieldNames = [''login''],
                   linkFieldNames = [], connectionFieldNames = [],
                   nestedFieldNames = []\<rparr>)],
              unionTypes = [(''Actor'', [''User''])]\<rparr>,
         blacklistedIds = [''spam'']\<rparr>"

definition example_db0 :: Database where
  "example_db0 =
     \<lparr>db_inTransaction = False,
         sqlite_master =
           [''meta'', ''updates'', ''objects'', ''links'',
            ''idx_links__parent_id__fieldname'', ''connections'',
            ''idx_connections__object_id__fieldname'', ''connection_entries'',
            ''idx_connection_entries__connection_id'', ''primitives_Issue'',
            ''primitives_User''],
         meta = [''MIRROR_v3IssueUserActorDatespam''], updates = [],
         objects = [], links = [], connections = [], connection_entries = [],
         primitives_tables =
           [(''Issue'',
             \<lparr>table_columns = [''title'', ''meta_data'', ''meta_data.date''],
                table_rows = []\<rparr>),
            (''User'', \<lparr>table_columns = [''login''], table_rows = []\<rparr>)]\<rparr>"

definition example_db1 :: Database where
  "example_db1 =
     \<lparr>db_inTransaction = False,
         sqlite_master =
           [''meta'', ''updates'', ''objects'', ''links'',
            ''idx_links__parent_id__fieldname'', ''connections'',
            ''idx_connections__object_id__fieldname'', ''connection_entries'',
            ''idx_connection_entries__connection_id'', ''primitives_Issue'',
            ''primitives_User''],
         meta = [''MIRROR_v3IssueUserActorDatespam''], updates = [],
         objects =
           [\<lparr>objects_id = ''i1'', objects_typename = ''Issue'',
               objects_last_update = None\<rparr>],
         links =
           [\<lparr>links_rowid = 1, parent_id = ''i1'', links_fieldname = ''author'',
               links_child_id = None\<rparr>,
            \<lparr>links_rowid = 2, parent_id = ''i1'',
               links_fieldname = ''meta_data.user'', links_child_id = None\<rparr>],
         connections =
           [\<lparr>connections_rowid = 1, object_id = ''i1'',
               connections_fieldname = ''comments'',
               connections_last_update = None, total_count = None,
               has_next_page = None, end_cursor = None\<rparr>],
         connection_entries = [],
         primitives_tables =
           [(''Issue'',
             \<lparr>table_columns = [''title'', ''meta_data'', ''meta_data.date''],
                table_rows =
                  [\<lparr>primitives_id = ''i1'',
                      cells =
                        [(''title'', SqlNull), (''meta_data'', SqlNull),
                         (''meta_data.date'', SqlNull)]\<rparr>]\<rparr>),
            (''User'', \<lparr>table_columns = [''login''], table_rows = []\<rparr>)]\<rparr>"







definition example_db2 :: Database where
  "example_db2 =
     \<lparr>db_inTransaction = False,
         sqlite_master =
           [''meta'', ''updates'', ''objects'', ''links'',
            ''idx_links__parent_id__fieldname'', ''connections'',
            ''idx_connections__object_id__fieldname'', ''connection_entries'',
            ''idx_connection_entries__connection_id'', ''primitives_Issue'',
            ''primitives_User''],
         meta = [''MIRROR_v3IssueUserActorDatespam''],
         updates = [\<lparr>updates_rowid = 1, time_epoch_millis = 1000\<rparr>],
         objects =
           [\<lparr>objects_id = ''i1'', objects_typename = ''Issue'',
               objects_last_update = Some 1\<rparr>,
            \<lparr>objects_id = ''u1'', objects_typename = ''User'',
               objects_last_update = None\<rparr>,
            \<lparr>objects_id = ''u2'', objects_typename = ''User'',
               objects_last_update = None\<rparr>],
         links =
           [\<lparr>links_rowid = 1, parent_id = ''i1'', links_fieldname = ''author'',
               links_child_id = Some ''u1''\<rparr>,
            \<lparr>links_rowid = 2, parent_id = ''i1'',
               links_fieldname = ''meta_data.user'', links_child_id = None\<rparr>],
         connections =
           [\<lparr>connections_rowid = 1, object_id = ''i1'',
               connections_fieldname = ''comments'',
               connections_last_update = Some 1, total_count = Some 3,
               has_next_page = Some 1, end_cursor = Some ''c1''\<rparr>],
         connection_entries =
           [\<lparr>entries_rowid = 1, connection_id = 1, idx = 1,
               entries_child_id = Some ''u2''\<rparr>,
            \<lparr>entries_rowid = 2, connection_id = 1, idx = 2,
               entries_child_id = None\<rparr>],
         primitives_tables =
           [(''Issue'',
             \<lparr>table_columns = [''title'', ''meta_data'', ''meta_data.date''],
                table_rows =
                  [\<lparr>primitives_id = ''i1'',
                      cells =
                        [(''title'', SqlJson (JString ''t'')),
                         (''meta_data'', SqlInteger 0),
                         (''meta_data.date'', SqlJson JNull)]\<rparr>]\<rparr>),
            (''User'',
             \<lparr>table_columns = [''login''],
                table_rows =
                  [\<lparr>primitives_id = ''u1'', cells = [(''login'', SqlNull)]\<rparr>,
                   \<lparr>primitives_id = ''u2'', cells = [(''login'', SqlNull)]\<rparr>]\<rparr>)]\<rparr>"


subsection \<open>Notions for stating the properties\<close>

text \<open>A statement preserves a property of the database, whether it returns or throws.\<close>

definition preserves :: "'a sql \<Rightarrow> (Database \<Rightarrow> bool) \<Rightarrow> bool" where
  "preserves stmt Q \<longleftrightarrow> (\<forall>db r db'. Q db \<longrightarrow> stmt db = (r, db') \<longrightarrow> Q db')"



text \<open>
  An object is a transitive dependency of the root: it is the root, or a dependency
  has it as the child of a link, or as the child of an entry of one of its
  connections. A child that is \<open>NULL\<close> leads nowhere.
\<close>

inductive depends_on :: "Database \<Rightarrow> ObjectId \<Rightarrow> ObjectId \<Rightarrow> bool"
  for db :: Database and rootId :: ObjectId where
  root: "depends_on db rootId rootId"
| link: "depends_on db rootId parent \<Longrightarrow> l \<in> set (links db) \<Longrightarrow> parent_id l = parent
         \<Longrightarrow> links_child_id l = Some child \<Longrightarrow> depends_on db rootId child"
| entry: "depends_on db rootId parent \<Longrightarrow> c \<in> set (connections db) \<Longrightarrow> object_id c = parent
         \<Longrightarrow> e \<in> set (connection_entries db) \<Longrightarrow> connection_id e = connections_rowid c
         \<Longrightarrow> entries_child_id e = Some child \<Longrightarrow> depends_on db rootId child"




subsection \<open>Decimal numerals are injective and free of the separator\<close>

definition digit_val :: "char \<Rightarrow> nat" where
  "digit_val c = of_char c - 48"

definition digits_value :: "string \<Rightarrow> nat" where
  "digits_value s = foldl (\<lambda>acc c. 10 * acc + digit_val c) 0 s"

lemma digit_val_digit_char: "d < 10 \<Longrightarrow> digit_val (digit_char d) = d"
  by (simp add: digit_val_def digit_char_def)

lemma digit_char_not_sep: "d < 10 \<Longrightarrow> digit_char d \<noteq> CHR ''_''"
proof
  assume d: "d < 10" and eq: "digit_char d = CHR ''_''"
  from eq have "(of_char (digit_char d) :: nat) = of_char CHR ''_''" by simp
  with d show False by (simp add: digit_char_def)
qed

lemma digits_value_snoc: "digits_value (s @ [c]) = 10 * digits_value s + digit_val c"
  by (simp add: digits_value_def)

lemma digits_value_String_nat: "digits_value (String_nat n) = n"
proof (induction n rule: String_nat.induct)
  case (1 n)
  show ?case
  proof (cases "n < 10")
    case True
    then show ?thesis
      by (simp add: String_nat.simps [of n] digits_value_def digit_val_digit_char)
  next
    case False
    with 1 have "digits_value (String_nat (n div 10)) = n div 10" by simp
    with False show ?thesis
      by (simp add: String_nat.simps [of n] digits_value_snoc digit_val_digit_char)
  qed
qed

lemma String_nat_inj: "String_nat n = String_nat m \<Longrightarrow> n = m"
  by (metis digits_value_String_nat)

lemma String_nat_no_sep: "CHR ''_'' \<notin> set (String_nat n)"
proof (induction n rule: String_nat.induct)
  case (1 n)
  show ?case
  proof (cases "n < 10")
    case True
    then show ?thesis
      using digit_char_not_sep [of n] by (auto simp: String_nat.simps [of n])
  next
    case False
    with 1 have "CHR ''_'' \<notin> set (String_nat (n div 10))" by simp
    moreover have "digit_char (n mod 10) \<noteq> CHR ''_''"
      by (rule digit_char_not_sep) simp
    ultimately show ?thesis
      using False by (auto simp: String_nat.simps [of n])
  qed
qed

lemma split_at_first_sep:
  assumes "a @ c # r = b @ c # r'" and "c \<notin> set a" and "c \<notin> set b"
  shows "a = b \<and> r = r'"
  using assms
proof (induction a arbitrary: b)
  case Nil
  then show ?case by (cases b) auto
next
  case (Cons x a)
  then show ?case by (cases b) auto
qed

lemma nestedField_eq_iff:
  "nestedField n1 e1 = nestedField n2 e2 \<longleftrightarrow> n1 = n2 \<and> e1 = e2"
proof
  assume eq: "nestedField n1 e1 = nestedField n2 e2"
  then have "String_nat (length n1) @ CHR ''_'' # (n1 @ CHR ''_'' # e1)
      = String_nat (length n2) @ CHR ''_'' # (n2 @ CHR ''_'' # e2)"
    by (simp add: nestedField_def)
  then have len: "String_nat (length n1) = String_nat (length n2)"
    and rest: "n1 @ CHR ''_'' # e1 = n2 @ CHR ''_'' # e2"
    using split_at_first_sep [OF _ String_nat_no_sep String_nat_no_sep] by blast+
  from len have "length n1 = length n2" by (rule String_nat_inj)
  with rest show "n1 = n2 \<and> e1 = e2" by simp
qed simp

lemma topLevelField_eq_iff: "topLevelField f1 = topLevelField f2 \<longleftrightarrow> f1 = f2"
  by (simp add: topLevelField_def)

lemma topLevelField_neq_nestedField: "topLevelField f \<noteq> nestedField n e"
  by (simp add: topLevelField_def nestedField_def)

text \<open>
  Claim C7. The parameter names are injective for all fieldnames, the separator
  \<open>_\<close> included: two distinct top-level fields get distinct names, two distinct
  (nested field, egg field) pairs get distinct names, and no top-level name is the
  name of a nested pair.
\<close>

theorem parameterNameFor_injective:
  "(f1 \<noteq> f2 \<longrightarrow> topLevelField f1 \<noteq> topLevelField f2)
   \<and> ((n1, e1) \<noteq> (n2, e2) \<longrightarrow> nestedField n1 e1 \<noteq> nestedField n2 e2)
   \<and> topLevelField f \<noteq> nestedField n e"
  using nestedField_eq_iff [of n1 e1 n2 e2] topLevelField_eq_iff [of f1 f2]
    topLevelField_neq_nestedField [of f n e]
  by auto

theorem parameterNameFor_injective_witness:
  "''a_b'' \<noteq> ''a'' \<and> topLevelField ''a_b'' \<noteq> topLevelField ''a''
   \<and> (''a_b'', ''c'') \<noteq> (''a'', ''b_c'') \<and> nestedField ''a_b'' ''c'' \<noteq> nestedField ''a'' ''b_c''
   \<and> topLevelField ''n_1_a_b'' \<noteq> nestedField ''a'' ''b''"
  using parameterNameFor_injective [of "''a_b''" "''a''" "''a_b''" "''c''" "''a''" "''b_c''"
      "''n_1_a_b''" "''a''" "''b''"]
  by simp

subsection \<open>The example states are states of the program\<close>





subsection \<open>Rules for sequencing\<close>

lemma and_then_ok [simp]: "and_then (ok x) f = f x"
  by (simp add: and_then_def ok_def)

lemma and_then_throw [simp]: "and_then (throw e) f = throw e"
  by (simp add: and_then_def throw_def)

lemma and_then_query [simp]: "and_then (query q) f db = f (q db) db"
  by (simp add: and_then_def query_def)


lemma and_then_Inl:
  "m db = (Inl e, db') \<Longrightarrow> and_then m f db = (Inl e, db')"
  by (simp add: and_then_def)

lemma and_then_step:
  "m db = (Inr x, db') \<Longrightarrow> and_then m f db = f x db'"
  by (simp add: and_then_def)


text \<open>
  Claim C10. \<open>_nontransactionallyUpdateOwnData\<close> with an empty batch returns at
  once: no error, no check of a typename, and the same database.
\<close>

theorem updateOwnData_empty_batch:
  "nontransactionallyUpdateOwnData m updateId [] db = (Inr (), db)"
  by (simp add: nontransactionallyUpdateOwnData_def ok_def)

text \<open>
  Claim C2. When the objects table has a row for the id, registering the id again
  with the typename of that row returns without an error and with the same
  database, and registering it with another typename throws the inconsistent-type
  error and leaves the database as it was. This holds for
  \<open>_nontransactionallyRegisterObject\<close>, and for \<open>registerObject\<close> when it is
  called outside a transaction, as \<open>_inTransaction\<close> demands.
\<close>

theorem registerObject_again:
  assumes "select_typename oid db = Some existing"
  shows "(existing = typename \<longrightarrow>
            nontransactionallyRegisterObject m typename oid db = (Inr (), db)
            \<and> (\<not> db_inTransaction db \<longrightarrow> registerObject m typename oid db = (Inr (), db)))
       \<and> (existing \<noteq> typename \<longrightarrow>
            nontransactionallyRegisterObject m typename oid db
              = (Inl (InconsistentType oid existing typename), db)
            \<and> (\<not> db_inTransaction db \<longrightarrow>
                 registerObject m typename oid db
                   = (Inl (InconsistentType oid existing typename), db)))"
proof -
  have sel: "select_typename oid (db\<lparr>db_inTransaction := True\<rparr>) = Some existing"
    using assms by (simp add: select_typename_def)
  show ?thesis
    using assms sel
    by (simp add: registerObject_def inTransaction_def nontransactionallyRegisterObject_def
        ok_def throw_def)
qed

theorem registerObject_again_witness:
  "select_typename ''i1'' example_db1 = Some ''Issue''
   \<and> \<not> db_inTransaction example_db1
   \<and> nontransactionallyRegisterObject example_mirror ''Issue'' ''i1'' example_db1
       = (Inr (), example_db1)
   \<and> registerObject example_mirror ''Issue'' ''i1'' example_db1 = (Inr (), example_db1)
   \<and> nontransactionallyRegisterObject example_mirror ''User'' ''i1'' example_db1
       = (Inl (InconsistentType ''i1'' ''Issue'' ''User''), example_db1)
   \<and> registerObject example_mirror ''User'' ''i1'' example_db1
       = (Inl (InconsistentType ''i1'' ''Issue'' ''User''), example_db1)"
proof -
  have sel: "select_typename ''i1'' example_db1 = Some ''Issue''"
    by (simp add: select_typename_def example_db1_def)
  have flag: "\<not> db_inTransaction example_db1"
    by (simp add: example_db1_def)
  show ?thesis
    using registerObject_again [OF sel, of "''Issue''" example_mirror]
      registerObject_again [OF sel, of "''User''" example_mirror] sel flag
    by simp
qed

text \<open>
  Claim C3. On a database whose \<open>meta\<close> table has a row: if the row is the encoding
  of version, schema and options, \<open>_initialize\<close> returns and the database is as
  before; if it is anything else, \<open>_initialize\<close> throws the error "incompatible
  schema, options, or version" and the database is as before, with no table
  created. The same holds for the constructor once the schema info is built.
\<close>

theorem initialize_populated:
  assumes "\<not> db_inTransaction db" and "select_config db = Some existingBlob"
    and "''meta'' \<in> set (sqlite_master db)"
  shows "(existingBlob = config_blob stringify m \<longrightarrow> initialize stringify m db = (Inr (), db))
       \<and> (existingBlob \<noteq> config_blob stringify m \<longrightarrow>
            initialize stringify m db = (Inl IncompatibleConfig, db))
       \<and> (buildSchemaInfo (schema m) = Inr (schemaInfo m) \<longrightarrow>
            new_Mirror stringify (schema m) (blacklistedIds m) db
              = (if existingBlob = config_blob stringify m then (Inr m, db)
                 else (Inl IncompatibleConfig, db)))"
proof -
  have same: "existingBlob = config_blob stringify m \<longrightarrow> initialize stringify m db = (Inr (), db)"
    using assms
    by (simp add: initialize_def inTransaction_def create_table_if_not_exists_def
        and_then_def query_def select_config_def ok_def throw_def Let_def split: list.splits)
  have differ: "existingBlob \<noteq> config_blob stringify m \<longrightarrow>
      initialize stringify m db = (Inl IncompatibleConfig, db)"
    using assms
    by (simp add: initialize_def inTransaction_def create_table_if_not_exists_def
        and_then_def query_def select_config_def ok_def throw_def Let_def split: list.splits)
  have m: "\<lparr>schema = schema m, schemaInfo = schemaInfo m, blacklistedIds = blacklistedIds m\<rparr> = m"
    by simp
  show ?thesis
    using same differ by (simp add: new_Mirror_def m)
qed

theorem initialize_populated_witness:
  "\<not> db_inTransaction example_db0
   \<and> select_config example_db0 = Some ''MIRROR_v3IssueUserActorDatespam''
   \<and> ''meta'' \<in> set (sqlite_master example_db0)
   \<and> initialize example_stringify example_mirror example_db0 = (Inr (), example_db0)
   \<and> initialize example_stringify (example_mirror\<lparr>blacklistedIds := []\<rparr>) example_db0
       = (Inl IncompatibleConfig, example_db0)"
proof -
  have flag: "\<not> db_inTransaction example_db0"
    and sel: "select_config example_db0 = Some ''MIRROR_v3IssueUserActorDatespam''"
    and tab: "''meta'' \<in> set (sqlite_master example_db0)"
    by (simp_all add: example_db0_def select_config_def)
  have b1: "config_blob example_stringify example_mirror = ''MIRROR_v3IssueUserActorDatespam''"
    by (simp add: config_blob_def example_stringify_def example_mirror_def)
  have b2: "config_blob example_stringify (example_mirror\<lparr>blacklistedIds := []\<rparr>)
            = ''MIRROR_v3IssueUserActorDate''"
    by (simp add: config_blob_def example_stringify_def example_mirror_def)
  show ?thesis
    using initialize_populated [OF flag sel tab, of example_stringify example_mirror]
      initialize_populated [OF flag sel tab, of example_stringify
        "example_mirror\<lparr>blacklistedIds := []\<rparr>"] flag sel tab b1 b2
    by simp
qed

text \<open>
  Claim C6. Every connection query that \<open>_queryConnection\<close> builds is one field
  whose first argument is \<open>first\<close> with the page size; the argument \<open>after\<close> is
  there exactly when the end cursor is not \<open>undefined\<close>, and then it is the literal
  of the cursor: \<open>null\<close> for a known-null cursor.
\<close>

theorem queryConnection_arguments:
  assumes "queryConnection m typename fieldname cursor pageSize = Inr selections"
  shows "\<exists>args children.
           selections = [Field fieldname args children]
           \<and> args = (''first'', Literal (JNumber pageSize))
                    # (case cursor of
                         None \<Rightarrow> []
                       | Some None \<Rightarrow> [(''after'', Literal JNull)]
                       | Some (Some c) \<Rightarrow> [(''after'', Literal (JString c))])
           \<and> map_of args ''first'' = Some (Literal (JNumber pageSize))
           \<and> (''after'' \<in> fst ` set args \<longleftrightarrow> cursor \<noteq> None)"
  using assms
  by (auto simp: queryConnection_def cursor_literal_def
      split: option.splits if_splits FieldType.splits sum.splits)

theorem queryConnection_arguments_witness:
  "(\<exists>s. queryConnection example_mirror ''Issue'' ''comments'' None 10 = Inr s
        \<and> (\<exists>children. s = [Field ''comments'' [(''first'', Literal (JNumber 10))] children]))
   \<and> (\<exists>s. queryConnection example_mirror ''Issue'' ''comments'' (Some None) 10 = Inr s
        \<and> (\<exists>children. s = [Field ''comments''
              [(''first'', Literal (JNumber 10)), (''after'', Literal JNull)] children]))"
proof -
  obtain s1 where s1: "queryConnection example_mirror ''Issue'' ''comments'' None 10 = Inr s1"
    by (simp add: queryConnection_def queryShallow_def example_mirror_def is_OBJECT_def)
  obtain s2 where s2: "queryConnection example_mirror ''Issue'' ''comments'' (Some None) 10 = Inr s2"
    by (simp add: queryConnection_def queryShallow_def example_mirror_def is_OBJECT_def)
  show ?thesis
    using queryConnection_arguments [OF s1] queryConnection_arguments [OF s2] s1 s2
    by auto
qed

subsection \<open>Joins on a key\<close>

lemma filter_key_unique:
  "distinct (map k ys) \<Longrightarrow>
   filter (\<lambda>y. k y = a) ys = (case find (\<lambda>y. k y = a) ys of None \<Rightarrow> [] | Some y \<Rightarrow> [y])"
proof (induction ys)
  case Nil
  show ?case by simp
next
  case (Cons y ys)
  show ?case
  proof (cases "k y = a")
    case True
    with Cons.prems have "\<forall>z \<in> set ys. k z \<noteq> a" by (auto simp: image_iff)
    then have "filter (\<lambda>y. k y = a) ys = []" by (simp add: filter_empty_conv)
    with True show ?thesis by simp
  next
    case False
    with Cons show ?thesis by simp
  qed
qed

lemma find_key_iff:
  "distinct (map k ys) \<Longrightarrow> find (\<lambda>y. k y = a) ys = Some y \<longleftrightarrow> y \<in> set ys \<and> k y = a"
proof (induction ys)
  case Nil
  show ?case by simp
next
  case (Cons z ys)
  then show ?case by (auto simp: image_iff)
qed

lemma find_key_None: "find (\<lambda>y. k y = a) ys = None \<longleftrightarrow> a \<notin> k ` set ys"
  by (auto simp: find_None_iff)

lemma left_outer_join_key:
  assumes "distinct (map k ys)"
  shows "left_outer_join xs ys (\<lambda>x y. g x = Some (k y))
         = map (\<lambda>x. (x, case g x of None \<Rightarrow> None | Some a \<Rightarrow> find (\<lambda>y. k y = a) ys)) xs"
proof -
  have one: "(case filter (\<lambda>y. g x = Some (k y)) ys of
                [] \<Rightarrow> [(x, None)] | matches \<Rightarrow> map (\<lambda>y. (x, Some y)) matches)
             = [(x, case g x of None \<Rightarrow> None | Some a \<Rightarrow> find (\<lambda>y. k y = a) ys)]" for x
  proof (cases "g x")
    case None
    then show ?thesis by simp
  next
    case (Some a)
    have "filter (\<lambda>y. g x = Some (k y)) ys = filter (\<lambda>y. k y = a) ys"
      using Some by (auto intro: filter_cong)
    then show ?thesis
      using Some filter_key_unique [OF assms, of a] by (simp split: option.splits)
  qed
  show ?thesis
    by (induction xs) (simp_all add: left_outer_join_def one)
qed

lemma inner_join_key:
  assumes "distinct (map k ys)" and "\<And>x y. on x y \<longleftrightarrow> g x = k y"
  shows "inner_join xs ys on
         = concat (map (\<lambda>x. case find (\<lambda>y. k y = g x) ys of
                                None \<Rightarrow> [] | Some y \<Rightarrow> [(x, y)]) xs)"
proof -
  have one: "map (\<lambda>y. (x, y)) (filter (on x) ys)
             = (case find (\<lambda>y. k y = g x) ys of None \<Rightarrow> [] | Some y \<Rightarrow> [(x, y)])" for x
  proof -
    have "filter (on x) ys = filter (\<lambda>y. k y = g x) ys"
      using assms(2) by (auto intro: filter_cong)
    then show ?thesis
      using filter_key_unique [OF assms(1), of "g x"] by (simp split: option.splits)
  qed
  show ?thesis
    by (induction xs) (simp_all add: inner_join_def one)
qed

lemma older_than_find:
  assumes "distinct (map updates_rowid us)"
  shows "older_than (case lu of None \<Rightarrow> None | Some a \<Rightarrow> find (\<lambda>u. updates_rowid u = a) us) since
         \<longleftrightarrow> (\<exists>u \<in> set us. lu = Some (updates_rowid u) \<and> time_epoch_millis u < since)"
proof (cases lu)
  case None
  then show ?thesis by (simp add: older_than_def)
next
  case (Some a)
  show ?thesis
  proof (cases "find (\<lambda>u. updates_rowid u = a) us")
    case None
    then have "a \<notin> updates_rowid ` set us" by (simp add: find_key_None)
    then show ?thesis using Some None by (auto simp: older_than_def)
  next
    case (Some u)
    have mem: "u \<in> set us" "updates_rowid u = a"
      using find_key_iff [OF assms, of a u] Some by auto
    have uniq: "u' = u" if "u' \<in> set us" "updates_rowid u' = a" for u'
      using find_key_iff [OF assms, of a u'] that Some by auto
    have "(\<exists>u' \<in> set us. updates_rowid u' = a \<and> time_epoch_millis u' < since)
        \<longleftrightarrow> time_epoch_millis u < since"
      using mem uniq by blast
    then show ?thesis using \<open>lu = Some a\<close> Some by (auto simp: older_than_def)
  qed
qed

text \<open>
  Claim C5. Outside a transaction, and with the primary keys of \<open>updates\<close> and
  \<open>objects\<close> and the foreign key of \<open>connections\<close> in force, \<open>_findOutdated\<close>
  returns, in table order, exactly the objects whose \<open>last_update\<close> is \<open>NULL\<close> or
  refers to an update with a time before \<open>since\<close>, and exactly the connections
  whose \<open>has_next_page\<close> is true, or whose \<open>last_update\<close> is \<open>NULL\<close> or refers
  to an update with a time before \<open>since\<close>. Each connection comes with the
  typename of its object, and a connection that was never updated has the end
  cursor \<open>undefined\<close>, any other one its stored cursor, which may be \<open>null\<close>.
\<close>

theorem findOutdated_exact:
  assumes "\<not> db_inTransaction db"
    and "distinct (map updates_rowid (updates db))"
    and "distinct (map objects_id (objects db))"
    and "\<forall>c \<in> set (connections db). object_exists (object_id c) db"
  shows "\<exists>plan. findOutdated since db = (Inr plan, db)
     \<and> plan_objects plan
         = map (\<lambda>ob. \<lparr>plan_typename = objects_typename ob, plan_id = objects_id ob\<rparr>)
             (filter (\<lambda>ob. objects_last_update ob = None
                        \<or> (\<exists>u \<in> set (updates db). objects_last_update ob = Some (updates_rowid u)
                               \<and> time_epoch_millis u < since))
                (objects db))
     \<and> list_all2
          (\<lambda>p c. select_typename (object_id c) db = Some (objectTypename p)
                 \<and> objectId p = object_id c
                 \<and> plan_fieldname p = connections_fieldname c
                 \<and> plan_endCursor p
                     = (if connections_last_update c = None then None else Some (end_cursor c)))
          (plan_connections plan)
          (filter (\<lambda>c. sql_true (has_next_page c) \<or> connections_last_update c = None
                      \<or> (\<exists>u \<in> set (updates db).
                            connections_last_update c = Some (updates_rowid u)
                            \<and> time_epoch_millis u < since))
             (connections db))
     \<and> plan_typenames plan = []"
proof -
  let ?us = "updates db"
  let ?upd = "\<lambda>lu. case lu of None \<Rightarrow> None | Some a \<Rightarrow> find (\<lambda>u. updates_rowid u = a) ?us"
  have run: "findOutdated since db
      = (Inr \<lparr>plan_objects = outdated_objects since db,
              plan_connections = outdated_connections since db, plan_typenames = []\<rparr>, db)"
    using assms(1)
    by (simp add: findOutdated_def inTransaction_def and_then_def query_def ok_def
        outdated_objects_def outdated_connections_def)
  have obs: "outdated_objects since db
      = map (\<lambda>ob. \<lparr>plan_typename = objects_typename ob, plan_id = objects_id ob\<rparr>)
          (filter (\<lambda>ob. objects_last_update ob = None
                     \<or> (\<exists>u \<in> set ?us. objects_last_update ob = Some (updates_rowid u)
                            \<and> time_epoch_millis u < since))
             (objects db))"
    by (simp add: outdated_objects_def left_outer_join_key [OF assms(2)] filter_map comp_def
        older_than_find [OF assms(2)])
  have join: "inner_join
        (left_outer_join (connections db) ?us
           (\<lambda>c u. connections_last_update c = Some (updates_rowid u)))
        (objects db) (\<lambda>(c, u) ob. object_id c = objects_id ob)
      = concat (map (\<lambda>c. case find (\<lambda>ob. objects_id ob = object_id c) (objects db) of
                             None \<Rightarrow> []
                           | Some ob \<Rightarrow> [((c, ?upd (connections_last_update c)), ob)])
                  (connections db))"
  proof -
    have lo: "left_outer_join (connections db) ?us
                (\<lambda>c u. connections_last_update c = Some (updates_rowid u))
              = map (\<lambda>c. (c, ?upd (connections_last_update c))) (connections db)"
      by (rule left_outer_join_key [OF assms(2)])
    have ij: "inner_join xs (objects db) (\<lambda>(c, u) ob. object_id c = objects_id ob)
              = concat (map (\<lambda>x. case find (\<lambda>ob. objects_id ob = object_id (fst x)) (objects db) of
                                     None \<Rightarrow> [] | Some ob \<Rightarrow> [(x, ob)]) xs)"
      for xs :: "(connections_row \<times> updates_row option) list"
      by (rule inner_join_key [OF assms(3)]) auto
    show ?thesis
      by (simp add: lo ij comp_def)
  qed
  define R where "R = (\<lambda>(p :: plan_connection) (c :: connections_row). select_typename (object_id c) db = Some (objectTypename p)
             \<and> objectId p = object_id c
             \<and> plan_fieldname p = connections_fieldname c
             \<and> plan_endCursor p
                 = (if connections_last_update c = None then None else Some (end_cursor c)))"
  define proj where "proj = (\<lambda>((c :: connections_row, u :: updates_row option), ob :: objects_row).
              \<lparr>objectTypename = objects_typename ob, objectId = object_id c,
               plan_fieldname = connections_fieldname c,
               plan_endCursor =
                 (if connections_last_update c = None then None else Some (end_cursor c))\<rparr>)"
  define F where "F = (\<lambda>((c :: connections_row, u), ob :: objects_row).
                    sql_true (has_next_page c) \<or> connections_last_update c = None
                    \<or> older_than u since)"
  define P where "P = (\<lambda>c :: connections_row. sql_true (has_next_page c) \<or> connections_last_update c = None
                  \<or> (\<exists>u \<in> set ?us. connections_last_update c = Some (updates_rowid u)
                        \<and> time_epoch_millis u < since))"
  define row where "row = (\<lambda>c :: connections_row. case find (\<lambda>ob. objects_id ob = object_id c) (objects db) of
                             None \<Rightarrow> []
                           | Some ob \<Rightarrow> [((c, ?upd (connections_last_update c)), ob)])"
  have cs: "list_all2 R (map proj (filter F (concat (map row cs)))) (filter P cs)"
    if "set cs \<subseteq> set (connections db)" for cs
    using that
  proof (induction cs)
    case Nil
    show ?case by simp
  next
    case (Cons c cs)
    then have "object_id c \<in> objects_id ` set (objects db)"
      using assms(4) by (auto simp: object_exists_def)
    then obtain ob where ob: "find (\<lambda>ob. objects_id ob = object_id c) (objects db) = Some ob"
      using find_key_None [of objects_id "object_id c" "objects db"] by auto
    have row: "row c = [((c, ?upd (connections_last_update c)), ob)]"
      by (simp add: row_def ob)
    have Fx: "F ((c, ?upd (connections_last_update c)), ob) = P c"
      using older_than_find [OF assms(2), of "connections_last_update c" since]
      by (simp add: F_def P_def)
    have Rx: "R (proj ((c, ?upd (connections_last_update c)), ob)) c"
      by (simp add: R_def proj_def select_typename_def ob)
    have IH: "list_all2 R (map proj (filter F (concat (map row cs)))) (filter P cs)"
      using Cons by simp
    show ?case
      using IH Rx by (simp add: row Fx)
  qed
  have "outdated_connections since db = map proj (filter F (concat (map row (connections db))))"
    by (simp add: outdated_connections_def join proj_def F_def row_def)
  then have "list_all2 R (outdated_connections since db) (filter P (connections db))"
    using cs [of "connections db"] by simp
  then show ?thesis
    unfolding R_def P_def using run obs by simp
qed

theorem findOutdated_exact_witness:
  "\<not> db_inTransaction example_db2
   \<and> distinct (map updates_rowid (updates example_db2))
   \<and> distinct (map objects_id (objects example_db2))
   \<and> list_all (\<lambda>c. object_exists (object_id c) example_db2) (connections example_db2)
   \<and> (\<exists>plan. findOutdated 1000 example_db2 = (Inr plan, example_db2)
         \<and> plan_objects plan = [\<lparr>plan_typename = ''User'', plan_id = ''u1''\<rparr>,
                                 \<lparr>plan_typename = ''User'', plan_id = ''u2''\<rparr>]
         \<and> plan_connections plan
             = [\<lparr>objectTypename = ''Issue'', objectId = ''i1'', plan_fieldname = ''comments'',
                 plan_endCursor = Some (Some ''c1'')\<rparr>])"
proof -
  have flag: "\<not> db_inTransaction example_db2"
    and upd: "distinct (map updates_rowid (updates example_db2))"
    and obj: "distinct (map objects_id (objects example_db2))"
    and fk: "\<forall>c \<in> set (connections example_db2). object_exists (object_id c) example_db2"
    by (simp_all add: example_db2_def object_exists_def)
  obtain plan where plan: "findOutdated 1000 example_db2 = (Inr plan, example_db2)"
    and obs: "plan_objects plan
         = map (\<lambda>ob. \<lparr>plan_typename = objects_typename ob, plan_id = objects_id ob\<rparr>)
             (filter (\<lambda>ob. objects_last_update ob = None
                        \<or> (\<exists>u \<in> set (updates example_db2).
                              objects_last_update ob = Some (updates_rowid u)
                              \<and> time_epoch_millis u < 1000))
                (objects example_db2))"
    and cs: "list_all2
          (\<lambda>p c. select_typename (object_id c) example_db2 = Some (objectTypename p)
                 \<and> objectId p = object_id c
                 \<and> plan_fieldname p = connections_fieldname c
                 \<and> plan_endCursor p
                     = (if connections_last_update c = None then None else Some (end_cursor c)))
          (plan_connections plan)
          (filter (\<lambda>c. sql_true (has_next_page c) \<or> connections_last_update c = None
                      \<or> (\<exists>u \<in> set (updates example_db2).
                            connections_last_update c = Some (updates_rowid u)
                            \<and> time_epoch_millis u < 1000))
             (connections example_db2))"
    using findOutdated_exact [OF flag upd obj fk, of 1000] by blast
  have obs': "plan_objects plan = [\<lparr>plan_typename = ''User'', plan_id = ''u1''\<rparr>,
                                   \<lparr>plan_typename = ''User'', plan_id = ''u2''\<rparr>]"
    using obs by (simp add: example_db2_def)
  have "list_all2
          (\<lambda>p c. select_typename (object_id c) example_db2 = Some (objectTypename p)
                 \<and> objectId p = object_id c
                 \<and> plan_fieldname p = connections_fieldname c
                 \<and> plan_endCursor p
                     = (if connections_last_update c = None then None else Some (end_cursor c)))
          (plan_connections plan) (connections example_db2)"
    using cs by (simp add: example_db2_def sql_true_def)
  then have cs': "plan_connections plan
             = [\<lparr>objectTypename = ''Issue'', objectId = ''i1'', plan_fieldname = ''comments'',
                 plan_endCursor = Some (Some ''c1'')\<rparr>]"
    by (auto simp: example_db2_def select_typename_def list_all2_Cons2)
  show ?thesis
    using flag upd obj fk plan obs' cs' by (simp add: list_all_iff)
qed

subsection \<open>Preservation through the control structure\<close>



lemma preserves_ok [simp]: "preserves (ok x) Q"
  by (simp add: preserves_def ok_def)

lemma preserves_throw [simp]: "preserves (throw e) Q"
  by (simp add: preserves_def throw_def)








subsection \<open>Row ids and indices\<close>


lemma sql_MAX_None: "sql_MAX xs = None \<longleftrightarrow> xs = []"
  by (cases xs) (auto split: option.splits)





subsection \<open>Sorting rows that come after all others\<close>



subsection \<open>What registering leaves alone\<close>









subsection \<open>Appending the entries of a page\<close>















subsection \<open>The rows of a join\<close>

lemma set_inner_join:
  "set (inner_join xs ys on) = {(x, y). x \<in> set xs \<and> y \<in> set ys \<and> on x y}"
  by (auto simp: inner_join_def)

lemma set_left_outer_join:
  "set (left_outer_join xs ys on)
   = {(x, Some y) | x y. x \<in> set xs \<and> y \<in> set ys \<and> on x y}
     \<union> {(x, None) | x. x \<in> set xs \<and> (\<forall>y \<in> set ys. \<not> on x y)}"
proof -
  have one: "set (case filter (on x) ys of [] \<Rightarrow> [(x, None)]
                   | matches \<Rightarrow> map (\<lambda>y. (x, Some y)) matches)
             = {(x, Some y) | y. y \<in> set ys \<and> on x y}
               \<union> {(x, None) | z. z = x \<and> (\<forall>y \<in> set ys. \<not> on x y)}" for x
  proof (cases "filter (on x) ys")
    case Nil
    then have "\<forall>y \<in> set ys. \<not> on x y" by (simp add: filter_empty_conv)
    then show ?thesis using Nil by auto
  next
    case (Cons a list)
    have m: "(case filter (on x) ys of [] \<Rightarrow> [(x, None)]
              | matches \<Rightarrow> map (\<lambda>y. (x, Some y)) matches)
             = map (\<lambda>y. (x, Some y)) (filter (on x) ys)"
      using Cons by simp
    from Cons have "a \<in> set (filter (on x) ys)" by simp
    then have a: "a \<in> set ys" "on x a" by simp_all
    show ?thesis
      unfolding m using a by auto
  qed
  show ?thesis
    unfolding left_outer_join_def set_concat set_map
    by (auto simp: one)
qed

subsection \<open>The recursive query computes the transitive dependencies\<close>

lemma new_children_set:
  "set (new_children deps seen x) = {c. (x, c) \<in> set deps \<and> c \<notin> set seen}"
  by (auto simp: new_children_def image_iff)

lemma transitive_dependencies_closed:
  assumes "set queue \<subseteq> set seen"
    and "\<forall>p \<in> set seen - set queue. \<forall>c. (p, c) \<in> set deps \<longrightarrow> c \<in> set seen"
  shows "set seen \<subseteq> set (transitive_dependencies deps queue seen)
       \<and> (\<forall>p \<in> set (transitive_dependencies deps queue seen).
            \<forall>c. (p, c) \<in> set deps \<longrightarrow> c \<in> set (transitive_dependencies deps queue seen))"
  using assms
proof (induction deps queue seen rule: transitive_dependencies.induct)
  case (1 deps seen)
  have "\<forall>p \<in> set seen. \<forall>c. (p, c) \<in> set deps \<longrightarrow> c \<in> set seen"
    using "1.prems"(2) by simp
  then show ?case by (simp add: transitive_dependencies.simps)
next
  case (2 deps x queue seen)
  let ?new = "new_children deps seen x"
  let ?R = "transitive_dependencies deps (queue @ ?new) (seen @ ?new)"
  have x: "x \<in> set seen" and queue: "set queue \<subseteq> set seen"
    using "2.prems"(1) by simp_all
  have q: "set (queue @ ?new) \<subseteq> set (seen @ ?new)"
    using queue by (simp add: subset_iff)
  have closed: "\<forall>p \<in> set (seen @ ?new) - set (queue @ ?new).
      \<forall>c. (p, c) \<in> set deps \<longrightarrow> c \<in> set (seen @ ?new)"
  proof (intro ballI allI impI)
    fix p c
    assume p: "p \<in> set (seen @ ?new) - set (queue @ ?new)" and pc: "(p, c) \<in> set deps"
    from p have p_seen: "p \<in> set seen" and p_queue: "p \<notin> set queue"
      by auto
    show "c \<in> set (seen @ ?new)"
    proof (cases "p = x")
      case True
      then have "c \<in> set seen \<or> c \<in> set ?new"
        using pc by (simp add: new_children_set)
      then show ?thesis by simp
    next
      case False
      then have "p \<in> set seen - set (x # queue)" using p_seen p_queue by simp
      then have "c \<in> set seen" using "2.prems"(2) pc by blast
      then show ?thesis by simp
    qed
  qed
  from "2.IH" [OF q closed]
  have A: "set (seen @ ?new) \<subseteq> set ?R"
    and B: "\<forall>p \<in> set ?R. \<forall>c. (p, c) \<in> set deps \<longrightarrow> c \<in> set ?R"
    by blast+
  have "set seen \<subseteq> set ?R" using A by simp
  then show ?case using B by (simp add: transitive_dependencies.simps)
qed

lemma transitive_dependencies_sound:
  assumes "set queue \<subseteq> S" and "set seen \<subseteq> S"
    and "\<forall>p c. p \<in> S \<longrightarrow> (p, c) \<in> set deps \<longrightarrow> c \<in> S"
  shows "set (transitive_dependencies deps queue seen) \<subseteq> S"
  using assms
proof (induction deps queue seen rule: transitive_dependencies.induct)
  case (1 deps seen)
  then show ?case by (simp add: transitive_dependencies.simps)
next
  case (2 deps x queue seen)
  have new: "set (new_children deps seen x) \<subseteq> S"
    using "2.prems" by (auto simp: new_children_set)
  have "set (transitive_dependencies deps (queue @ new_children deps seen x)
          (seen @ new_children deps seen x)) \<subseteq> S"
  proof (rule "2.IH")
    show "set (queue @ new_children deps seen x) \<subseteq> S"
      using new "2.prems"(1) by simp
    show "set (seen @ new_children deps seen x) \<subseteq> S"
      using new "2.prems"(2) by simp
    show "\<forall>p c. p \<in> S \<longrightarrow> (p, c) \<in> set deps \<longrightarrow> c \<in> S"
      by (rule "2.prems"(3))
  qed
  then show ?case by (simp add: transitive_dependencies.simps)
qed

lemma transitive_dependencies_distinct:
  "distinct seen \<Longrightarrow> distinct (transitive_dependencies deps queue seen)"
proof (induction deps queue seen rule: transitive_dependencies.induct)
  case (1 deps seen)
  then show ?case by (simp add: transitive_dependencies.simps)
next
  case (2 deps x queue seen)
  have "distinct (seen @ new_children deps seen x)"
    using "2.prems" by (auto simp: new_children_def)
  then show ?case by (simp add: "2.IH" transitive_dependencies.simps)
qed

lemma mem_concat_map_option:
  "a \<in> set (concat (map (\<lambda>x. case f x of None \<Rightarrow> [] | Some y \<Rightarrow> [g x y]) xs))
   \<longleftrightarrow> (\<exists>x \<in> set xs. \<exists>y. f x = Some y \<and> g x y = a)"
proof (induction xs)
  case Nil
  show ?case by simp
next
  case (Cons x xs)
  show ?case by (cases "f x") (use Cons in auto)
qed

lemma direct_dependencies_set:
  "(p, c) \<in> set (direct_dependencies db) \<longleftrightarrow>
     (\<exists>l \<in> set (links db). parent_id l = p \<and> links_child_id l = Some c)
     \<or> (\<exists>cn \<in> set (connections db). \<exists>e \<in> set (connection_entries db).
          object_id cn = p \<and> connection_id e = connections_rowid cn
          \<and> entries_child_id e = Some c)"
proof -
  have l: "(p, c) \<in> set (concat (map (\<lambda>l. case links_child_id l of
                                         None \<Rightarrow> []
                                       | Some child \<Rightarrow> [(parent_id l, child)]) (links db)))
      \<longleftrightarrow> (\<exists>l \<in> set (links db). parent_id l = p \<and> links_child_id l = Some c)"
    unfolding mem_concat_map_option by auto
  have e: "(p, c) \<in> set (concat (map (\<lambda>(cn, e). case entries_child_id e of
                                   None \<Rightarrow> []
                                 | Some child \<Rightarrow> [(object_id cn, child)])
                   (inner_join (connections db) (connection_entries db)
                      (\<lambda>cn e. connections_rowid cn = connection_id e))))
      \<longleftrightarrow> (\<exists>cn \<in> set (connections db). \<exists>e \<in> set (connection_entries db).
          object_id cn = p \<and> connection_id e = connections_rowid cn
          \<and> entries_child_id e = Some c)"
  proof -
    have eq: "(\<lambda>(cn, e). case entries_child_id e of
                       None \<Rightarrow> []
                     | Some child \<Rightarrow> [(object_id cn, child)])
          = (\<lambda>x. case entries_child_id (snd x) of
                    None \<Rightarrow> []
                  | Some child \<Rightarrow> [(object_id (fst x), child)])"
      by (auto simp: fun_eq_iff split: option.splits)
    show ?thesis
      unfolding eq mem_concat_map_option [where f = "\<lambda>x. entries_child_id (snd x)"
          and g = "\<lambda>x child. (object_id (fst x), child)"] set_inner_join
      by force
  qed
  show ?thesis
    unfolding direct_dependencies_def set_remdups set_append Un_iff l e ..
qed

lemma depends_on_iff_transitive_dependencies:
  "depends_on db rootId oid
   \<longleftrightarrow> oid \<in> set (transitive_dependencies (direct_dependencies db) [rootId] [rootId])"
proof
  let ?R = "transitive_dependencies (direct_dependencies db) [rootId] [rootId]"
  have closed: "set [rootId] \<subseteq> set ?R
      \<and> (\<forall>p \<in> set ?R. \<forall>c. (p, c) \<in> set (direct_dependencies db) \<longrightarrow> c \<in> set ?R)"
    by (rule transitive_dependencies_closed) auto
  assume "depends_on db rootId oid"
  then show "oid \<in> set ?R"
  proof induction
    case root
    show ?case using closed by simp
  next
    case (link parent l child)
    have "(parent, child) \<in> set (direct_dependencies db)"
      unfolding direct_dependencies_set using link.hyps by blast
    then show ?case
      using closed [THEN conjunct2, rule_format, OF link.IH] by blast
  next
    case (entry parent c e child)
    have "(parent, child) \<in> set (direct_dependencies db)"
      unfolding direct_dependencies_set using entry.hyps by blast
    then show ?case
      using closed [THEN conjunct2, rule_format, OF entry.IH] by blast
  qed
next
  let ?R = "transitive_dependencies (direct_dependencies db) [rootId] [rootId]"
  have "set ?R \<subseteq> {x. depends_on db rootId x}"
  proof (rule transitive_dependencies_sound)
    show "set [rootId] \<subseteq> {x. depends_on db rootId x}"
      by (simp add: depends_on.root)
    then show "set [rootId] \<subseteq> {x. depends_on db rootId x}" .
    show "\<forall>p c. p \<in> {x. depends_on db rootId x} \<longrightarrow> (p, c) \<in> set (direct_dependencies db)
        \<longrightarrow> c \<in> {x. depends_on db rootId x}"
    proof (intro allI impI)
      fix p c
      assume p: "p \<in> {x. depends_on db rootId x}"
        and pc: "(p, c) \<in> set (direct_dependencies db)"
      from pc consider
        l where "l \<in> set (links db)" "parent_id l = p" "links_child_id l = Some c"
        | cn e where "cn \<in> set (connections db)" "e \<in> set (connection_entries db)"
          "object_id cn = p" "connection_id e = connections_rowid cn"
          "entries_child_id e = Some c"
        unfolding direct_dependencies_set by blast
      then have "depends_on db rootId c"
      proof cases
        case 1
        then show ?thesis using p depends_on.link [of db rootId p l c] by simp
      next
        case 2
        then show ?thesis using p depends_on.entry [of db rootId p cn e c] by simp
      qed
      then show "c \<in> {x. depends_on db rootId x}" by simp
    qed
  qed
  moreover assume "oid \<in> set ?R"
  ultimately show "depends_on db rootId oid" by auto
qed

subsection \<open>The freshness check of \<open>extract\<close>\<close>

lemma dependencies_table_set:
  "(oid, t) \<in> set (dependencies_table rootId db)
   \<longleftrightarrow> depends_on db rootId oid
       \<and> (\<exists>ob \<in> set (objects db). objects_id ob = oid \<and> objects_typename ob = t)"
proof -
  let ?R = "transitive_dependencies (direct_dependencies db) [rootId] [rootId]"
  have "(oid, t) \<in> set (dependencies_table rootId db)
      \<longleftrightarrow> (\<exists>ob d. ob \<in> set (objects db) \<and> d \<in> set ?R \<and> objects_id ob = d
            \<and> oid = objects_id ob \<and> t = objects_typename ob)"
    unfolding dependencies_table_def set_map set_inner_join image_iff by auto
  also have "\<dots> \<longleftrightarrow> oid \<in> set ?R
      \<and> (\<exists>ob \<in> set (objects db). objects_id ob = oid \<and> objects_typename ob = t)"
    by blast
  finally show ?thesis
    by (simp add: depends_on_iff_transitive_dependencies)
qed

lemma dependencies_table_ids:
  "oid \<in> fst ` set (dependencies_table rootId db)
   \<longleftrightarrow> depends_on db rootId oid \<and> object_exists oid db"
proof -
  have "oid \<in> fst ` set (dependencies_table rootId db)
      \<longleftrightarrow> (\<exists>t. (oid, t) \<in> set (dependencies_table rootId db))"
    by force
  also have "\<dots> \<longleftrightarrow> depends_on db rootId oid \<and> object_exists oid db"
    unfolding dependencies_table_set object_exists_def image_iff by blast
  finally show ?thesis .
qed

lemma filter_eq_distinct:
  "distinct xs \<Longrightarrow> filter (\<lambda>d. a = d) xs = (if a \<in> set xs then [a] else [])"
  by (induction xs) auto

lemma dependencies_table_distinct:
  assumes "distinct (map objects_id (objects db))"
  shows "distinct (map fst (dependencies_table rootId db))"
proof -
  let ?R = "transitive_dependencies (direct_dependencies db) [rootId] [rootId]"
  have R: "distinct ?R" by (rule transitive_dependencies_distinct) simp
  have "map fst (map (\<lambda>(ob, d). (objects_id ob, objects_typename ob))
                 (inner_join obs ?R (\<lambda>ob d. objects_id ob = d)))
        = filter (\<lambda>i. i \<in> set ?R) (map objects_id obs)" for obs
    by (induction obs) (simp_all add: inner_join_def filter_eq_distinct [OF R] comp_def)
  then have "map fst (dependencies_table rootId db)
      = filter (\<lambda>i. i \<in> set ?R) (map objects_id (objects db))"
    unfolding dependencies_table_def .
  then show ?thesis
    using assms by simp
qed

lemma never_updated_set:
  "(oid, f) \<in> set (never_updated temp db)
   \<longleftrightarrow> oid \<in> fst ` set temp
       \<and> ((f = None \<and> (\<exists>ob \<in> set (objects db). objects_id ob = oid
                            \<and> objects_last_update ob = None))
          \<or> (object_exists oid db
              \<and> (\<exists>cn \<in> set (connections db). object_id cn = oid
                     \<and> f = Some (connections_fieldname cn)
                     \<and> connections_last_update cn = None)))"
proof -
  have first: "(oid, f) \<in> set (map (\<lambda>(t, ob). (objects_id ob, None))
       (filter (\<lambda>(t, ob). objects_last_update ob = None)
          (inner_join temp (objects db) (\<lambda>t ob. fst t = objects_id ob))))
    \<longleftrightarrow> oid \<in> fst ` set temp \<and> f = None
        \<and> (\<exists>ob \<in> set (objects db). objects_id ob = oid \<and> objects_last_update ob = None)"
    unfolding set_map set_filter set_inner_join image_iff by force
  have second: "(oid, f) \<in> set (map (\<lambda>((t, ob), c). (objects_id ob, map_option connections_fieldname c))
         (filter (\<lambda>((t, ob), c). case c of
                                    None \<Rightarrow> False
                                  | Some r \<Rightarrow> connections_last_update r = None)
            (left_outer_join
               (inner_join temp (objects db) (\<lambda>t ob. fst t = objects_id ob))
               (connections db)
               (\<lambda>(t, ob) c. objects_id ob = object_id c))))
    \<longleftrightarrow> oid \<in> fst ` set temp \<and> object_exists oid db
        \<and> (\<exists>cn \<in> set (connections db). object_id cn = oid
               \<and> f = Some (connections_fieldname cn) \<and> connections_last_update cn = None)"
    unfolding set_map set_filter set_left_outer_join set_inner_join image_iff object_exists_def
    by (auto split: option.splits) force+
  show ?thesis
    unfolding never_updated_def set_append Un_iff first second by blast
qed

lemma check_freshness_fails:
  assumes "never_updated temp db \<noteq> []"
  shows "\<exists>bad f. (bad, f) \<in> set (never_updated temp db)
           \<and> check_freshness rootId temp db
               = Inl (case f of None \<Rightarrow> NeverFetchedOwnData rootId bad
                      | Some fieldname \<Rightarrow> NeverFetchedConnection rootId bad fieldname)"
proof (cases "never_updated temp db")
  case Nil
  with assms show ?thesis by simp
next
  case (Cons first rest)
  obtain bad f where first: "first = (bad, f)" by (cases first)
  show ?thesis
    by (rule exI [of _ bad], rule exI [of _ f])
       (simp add: check_freshness_def Cons first split: option.splits)
qed

lemma extract_from_stale:
  assumes "distinct (map fst (dependencies_table rootId db))"
    and "check_freshness rootId (dependencies_table rootId db) db = Inl e"
  shows "extract_from m rootId db = Inl e"
  using assms by (simp add: extract_from_def Let_def)

lemma extract_from_stale_any:
  assumes "check_freshness rootId (dependencies_table rootId db) db = Inl e"
  shows "\<exists>e'. extract_from m rootId db = Inl e'"
  using assms by (simp add: extract_from_def Let_def)

text \<open>The extractor reads the tables, not the transaction flag.\<close>

lemma direct_dependencies_flag [simp]:
  "direct_dependencies (db\<lparr>db_inTransaction := b\<rparr>) = direct_dependencies db"
  by (simp add: direct_dependencies_def)

lemma depends_on_flag [simp]:
  "depends_on (db\<lparr>db_inTransaction := b\<rparr>) rootId oid = depends_on db rootId oid"
  by (simp add: depends_on_iff_transitive_dependencies)

lemma mirror_extract_result:
  "fst (mirror_extract m rootId db)
   = (if db_inTransaction db then Inl AlreadyInTransaction
      else extract_from m rootId (db\<lparr>db_inTransaction := True\<rparr>))"
  by (simp add: mirror_extract_def inTransaction_def split: sum.splits)

lemma extract_from_never_fetched:
  assumes dep: "depends_on db rootId oid" and ex: "object_exists oid db"
    and stale: "(\<exists>ob \<in> set (objects db). objects_id ob = oid \<and> objects_last_update ob = None)
       \<or> (\<exists>cn \<in> set (connections db). object_id cn = oid \<and> connections_last_update cn = None)"
  shows "\<exists>e. extract_from m rootId db = Inl e
     \<and> (distinct (map objects_id (objects db)) \<longrightarrow>
          (\<exists>bad. depends_on db rootId bad
             \<and> ((e = NeverFetchedOwnData rootId bad
                  \<and> (\<exists>ob \<in> set (objects db). objects_id ob = bad
                         \<and> objects_last_update ob = None))
                \<or> (\<exists>fieldname. e = NeverFetchedConnection rootId bad fieldname
                      \<and> (\<exists>cn \<in> set (connections db). object_id cn = bad
                             \<and> connections_fieldname cn = fieldname
                             \<and> connections_last_update cn = None)))))"
proof -
  let ?temp = "dependencies_table rootId db"
  have in_temp: "oid \<in> fst ` set ?temp"
    using dep ex by (simp add: dependencies_table_ids)
  from stale have "\<exists>f. (oid, f) \<in> set (never_updated ?temp db)"
  proof
    assume "\<exists>ob \<in> set (objects db). objects_id ob = oid \<and> objects_last_update ob = None"
    then have "(oid, None) \<in> set (never_updated ?temp db)"
      using in_temp unfolding never_updated_set by blast
    then show ?thesis ..
  next
    assume "\<exists>cn \<in> set (connections db). object_id cn = oid \<and> connections_last_update cn = None"
    then obtain cn where "cn \<in> set (connections db)" "object_id cn = oid"
        "connections_last_update cn = None" by blast
    then have "(oid, Some (connections_fieldname cn)) \<in> set (never_updated ?temp db)"
      using in_temp ex unfolding never_updated_set by blast
    then show ?thesis ..
  qed
  then have "never_updated ?temp db \<noteq> []" by auto
  then obtain bad f where bad: "(bad, f) \<in> set (never_updated ?temp db)"
    and check: "check_freshness rootId ?temp db
        = Inl (case f of None \<Rightarrow> NeverFetchedOwnData rootId bad
               | Some fieldname \<Rightarrow> NeverFetchedConnection rootId bad fieldname)"
    using check_freshness_fails by blast
  let ?e = "case f of None \<Rightarrow> NeverFetchedOwnData rootId bad
            | Some fieldname \<Rightarrow> NeverFetchedConnection rootId bad fieldname"
  obtain e where e: "extract_from m rootId db = Inl e"
    using extract_from_stale_any [OF check] by blast
  have named: "e = ?e" if "distinct (map objects_id (objects db))"
    using extract_from_stale [OF dependencies_table_distinct [OF that] check, of m] e by simp
  have bad_dep: "depends_on db rootId bad"
    using bad unfolding never_updated_set dependencies_table_ids by blast
  have bad_stale: "(f = None \<and> (\<exists>ob \<in> set (objects db). objects_id ob = bad
                            \<and> objects_last_update ob = None))
          \<or> (\<exists>cn \<in> set (connections db). object_id cn = bad
                     \<and> f = Some (connections_fieldname cn)
                     \<and> connections_last_update cn = None)"
    using bad unfolding never_updated_set by blast
  have "\<exists>bad. depends_on db rootId bad
             \<and> ((e = NeverFetchedOwnData rootId bad
                  \<and> (\<exists>ob \<in> set (objects db). objects_id ob = bad
                         \<and> objects_last_update ob = None))
                \<or> (\<exists>fieldname. e = NeverFetchedConnection rootId bad fieldname
                      \<and> (\<exists>cn \<in> set (connections db). object_id cn = bad
                             \<and> connections_fieldname cn = fieldname
                             \<and> connections_last_update cn = None)))"
    if d: "distinct (map objects_id (objects db))"
  proof -
    from bad_stale show ?thesis
    proof
      assume "f = None \<and> (\<exists>ob \<in> set (objects db). objects_id ob = bad
                            \<and> objects_last_update ob = None)"
      then show ?thesis using named [OF d] bad_dep by auto
    next
      assume "\<exists>cn \<in> set (connections db). object_id cn = bad
                     \<and> f = Some (connections_fieldname cn)
                     \<and> connections_last_update cn = None"
      then show ?thesis using named [OF d] bad_dep by auto
    qed
  qed
  then show ?thesis using e by blast
qed

text \<open>
  Claim C8. When an object that the root transitively depends on, through link
  children and connection-entry children that are not \<open>NULL\<close>, has a row in
  \<open>objects\<close> and either that row has \<open>last_update\<close> \<open>NULL\<close> or a connection of
  the object has \<open>last_update\<close> \<open>NULL\<close>, \<open>extract\<close> fails. Called outside a
  transaction on a table whose ids are a primary key, its error names the root and
  an object that the root depends on, and says either that the own data of that
  object was never fetched, and then its \<open>last_update\<close> is \<open>NULL\<close>, or that a
  named connection of it was never fetched, and then that connection has
  \<open>last_update\<close> \<open>NULL\<close>.
\<close>

theorem extract_fails_on_never_fetched:
  assumes "depends_on db rootId oid" and "object_exists oid db"
    and "(\<exists>ob \<in> set (objects db). objects_id ob = oid \<and> objects_last_update ob = None)
       \<or> (\<exists>cn \<in> set (connections db). object_id cn = oid \<and> connections_last_update cn = None)"
  shows "\<exists>e. fst (mirror_extract m rootId db) = Inl e
     \<and> (\<not> db_inTransaction db \<and> distinct (map objects_id (objects db)) \<longrightarrow>
          (\<exists>bad. depends_on db rootId bad
             \<and> ((e = NeverFetchedOwnData rootId bad
                  \<and> (\<exists>ob \<in> set (objects db). objects_id ob = bad
                         \<and> objects_last_update ob = None))
                \<or> (\<exists>fieldname. e = NeverFetchedConnection rootId bad fieldname
                      \<and> (\<exists>cn \<in> set (connections db). object_id cn = bad
                             \<and> connections_fieldname cn = fieldname
                             \<and> connections_last_update cn = None)))))"
proof (cases "db_inTransaction db")
  case True
  then show ?thesis by (simp add: mirror_extract_result)
next
  case False
  let ?db = "db\<lparr>db_inTransaction := True\<rparr>"
  have "\<exists>e. extract_from m rootId ?db = Inl e
     \<and> (distinct (map objects_id (objects ?db)) \<longrightarrow>
          (\<exists>bad. depends_on ?db rootId bad
             \<and> ((e = NeverFetchedOwnData rootId bad
                  \<and> (\<exists>ob \<in> set (objects ?db). objects_id ob = bad
                         \<and> objects_last_update ob = None))
                \<or> (\<exists>fieldname. e = NeverFetchedConnection rootId bad fieldname
                      \<and> (\<exists>cn \<in> set (connections ?db). object_id cn = bad
                             \<and> connections_fieldname cn = fieldname
                             \<and> connections_last_update cn = None)))))"
    by (rule extract_from_never_fetched) (use assms in \<open>simp_all add: object_exists_def\<close>)
  then show ?thesis using False by (simp add: mirror_extract_result)
qed

theorem extract_fails_on_never_fetched_witness:
  "depends_on example_db2 ''i1'' ''u1'' \<and> object_exists ''u1'' example_db2
   \<and> (\<exists>ob \<in> set (objects example_db2). objects_id ob = ''u1'' \<and> objects_last_update ob = None)
   \<and> \<not> db_inTransaction example_db2 \<and> distinct (map objects_id (objects example_db2))
   \<and> fst (mirror_extract example_mirror ''i1'' example_db2)
       = Inl (NeverFetchedOwnData ''i1'' ''u1'')"
proof -
  have l: "\<lparr>links_rowid = 1, parent_id = ''i1'', links_fieldname = ''author'',
            links_child_id = Some ''u1''\<rparr> \<in> set (links example_db2)"
    by (simp add: example_db2_def)
  have dep: "depends_on example_db2 ''i1'' ''u1''"
    by (rule depends_on.link [OF depends_on.root l]) simp_all
  have ex: "object_exists ''u1'' example_db2"
    by (simp add: object_exists_def example_db2_def)
  have stale: "\<exists>ob \<in> set (objects example_db2). objects_id ob = ''u1''
      \<and> objects_last_update ob = None"
    by (simp add: example_db2_def)
  have flag: "\<not> db_inTransaction example_db2"
    and key: "distinct (map objects_id (objects example_db2))"
    by (simp_all add: example_db2_def)
  have "case fst (mirror_extract example_mirror ''i1'' example_db2) of
          Inl e \<Rightarrow> e = NeverFetchedOwnData ''i1'' ''u1'' | Inr _ \<Rightarrow> False"
    by code_simp
  then have result: "fst (mirror_extract example_mirror ''i1'' example_db2)
      = Inl (NeverFetchedOwnData ''i1'' ''u1'')"
    by (simp split: sum.splits)
  obtain e where "fst (mirror_extract example_mirror ''i1'' example_db2) = Inl e"
    using extract_fails_on_never_fetched [OF dep ex disjI1 [OF stale], of example_mirror]
    by blast
  then show ?thesis
    using dep ex stale flag key result by simp
qed

subsection \<open>No statement stores a blacklisted child\<close>



lemma no_blacklisted_child_flag [simp]:
  "no_blacklisted_child m (db\<lparr>db_inTransaction := b\<rparr>) = no_blacklisted_child m db"
  by (simp add: no_blacklisted_child_def)

















subsection \<open>The constructor stores no child\<close>



subsection \<open>The references of an extracted graph are children of links and entries\<close>
















subsection \<open>A loop that returns ran every one of its bodies\<close>





subsection \<open>The steps of an own-data update that returns\<close>



subsection \<open>An update that returns found every field\<close>




subsection \<open>Assigning the columns of a row\<close>

lemma set_cell_keys [simp]: "map fst (set_cell col v cs) = map fst cs"
  by (induction cs) (auto simp: set_cell_def)









subsection \<open>The presence marker of a nested field that is \<open>null\<close>\<close>






subsection \<open>What keeps the cells of a row\<close>











subsection \<open>What keeps the child of a link\<close>









subsection \<open>The links of the eggs of a nested field that is \<open>null\<close>\<close>



subsection \<open>An own-data update with a nested field that is \<open>null\<close>\<close>


subsection \<open>The errors of the parameters of an entry\<close>





end
